theory Spec2Isabelle
  imports Complex_Main "HOL-Library.Word"
begin

unbundle bit_operations_syntax

section \<open>QTPFS path search: data model\<close>

text \<open>
  The development embeds \<^verbatim>\<open>rts/Sim/Path/QTPFS/PathSearch.cpp\<close>.
  Pointers to nodes are node identifiers (\<open>NULL\<close> is \<open>None\<close>), the node
  objects live in an explicit store \<open>nodes\<close>, and every member function
  takes the search object and returns it updated.

  C++ \<open>float\<close> is idealised: finite values are exact reals (no rounding, no
  overflow), and the special values \<open>+inf\<close>, \<open>-inf\<close> and \<open>NaN\<close> are
  kept with their IEEE-754 rules, because the code tests move costs against
  \<open>QTPFS_POSITIVE_INFINITY\<close>.
\<close>

subsection \<open>Floats\<close>

datatype float = Fin real | PInf | NInf | NaN

definition inf_signed :: "real \<Rightarrow> float" where
  "inf_signed r = (if 0 < r then PInf else if r < 0 then NInf else NaN)"

fun fadd :: "float \<Rightarrow> float \<Rightarrow> float" where
  "fadd (Fin a) (Fin b) = Fin (a + b)"
| "fadd NaN _ = NaN"
| "fadd _ NaN = NaN"
| "fadd PInf NInf = NaN"
| "fadd NInf PInf = NaN"
| "fadd PInf _ = PInf"
| "fadd _ PInf = PInf"
| "fadd NInf _ = NInf"
| "fadd _ NInf = NInf"

fun fmul :: "float \<Rightarrow> float \<Rightarrow> float" where
  "fmul (Fin a) (Fin b) = Fin (a * b)"
| "fmul NaN _ = NaN"
| "fmul _ NaN = NaN"
| "fmul PInf (Fin b) = inf_signed b"
| "fmul (Fin a) PInf = inf_signed a"
| "fmul NInf (Fin b) = inf_signed (- b)"
| "fmul (Fin a) NInf = inf_signed (- a)"
| "fmul PInf PInf = PInf"
| "fmul NInf NInf = PInf"
| "fmul PInf NInf = NInf"
| "fmul NInf PInf = NInf"

fun fdiv :: "float \<Rightarrow> float \<Rightarrow> float" where
  "fdiv (Fin a) (Fin b) = (if b = 0 then inf_signed a else Fin (a / b))"
| "fdiv NaN _ = NaN"
| "fdiv _ NaN = NaN"
| "fdiv (Fin a) PInf = Fin 0"
| "fdiv (Fin a) NInf = Fin 0"
| "fdiv PInf (Fin b) = (if 0 \<le> b then PInf else NInf)"
| "fdiv NInf (Fin b) = (if 0 \<le> b then NInf else PInf)"
| "fdiv PInf PInf = NaN"
| "fdiv PInf NInf = NaN"
| "fdiv NInf PInf = NaN"
| "fdiv NInf NInf = NaN"

fun fsqrt :: "float \<Rightarrow> float" where
  "fsqrt (Fin a) = (if a < 0 then NaN else Fin (sqrt a))"
| "fsqrt PInf = PInf"
| "fsqrt NInf = NaN"
| "fsqrt NaN = NaN"

text \<open>Comparisons: every comparison with \<open>NaN\<close> is false.\<close>

fun flt :: "float \<Rightarrow> float \<Rightarrow> bool" where
  "flt (Fin a) (Fin b) = (a < b)"
| "flt NaN _ = False"
| "flt _ NaN = False"
| "flt _ NInf = False"
| "flt PInf _ = False"
| "flt NInf _ = True"
| "flt _ PInf = True"

fun fge :: "float \<Rightarrow> float \<Rightarrow> bool" where
  "fge (Fin a) (Fin b) = (b \<le> a)"
| "fge NaN _ = False"
| "fge _ NaN = False"
| "fge _ NInf = True"
| "fge PInf _ = True"
| "fge NInf _ = False"
| "fge _ PInf = False"

definition feq :: "float \<Rightarrow> float \<Rightarrow> bool" where
  "feq a b = (a \<noteq> NaN \<and> a = b)"

type_synonym uint = "32 word"

definition float_of_uint :: "uint \<Rightarrow> float" where
  "float_of_uint w = Fin (real (unat w))"

definition float_of_bool :: "bool \<Rightarrow> float" where
  "float_of_bool b = Fin (if b then 1 else 0)"

definition QTPFS_POSITIVE_INFINITY :: float where
  "QTPFS_POSITIVE_INFINITY = PInf"

subsection \<open>Points\<close>

text \<open>
  Modelled from the spec: \<open>float3\<close> (System/float3.h is not part of the
  sources at hand). A world point has three finite coordinates; \<open>distance\<close> is
  the Euclidean distance, \<open>SqDistance\<close> its square, and two points are equal
  when their coordinates are.
\<close>

record float3 =
  fx :: real
  fy :: real
  fz :: real

definition SqDistance :: "float3 \<Rightarrow> float3 \<Rightarrow> real" where
  "SqDistance p q =
     (fx p - fx q) * (fx p - fx q) + (fy p - fy q) * (fy p - fy q) + (fz p - fz q) * (fz p - fz q)"

definition distance :: "float3 \<Rightarrow> float3 \<Rightarrow> real" where
  "distance p q = sqrt (SqDistance p q)"

text \<open>
  Modelled from the spec: \<open>SQUARE_SIZE\<close>, the world-unit size of one terrain
  square (Sim/Misc/GlobalConstants.h is not part of the sources at hand; the
  engine's value is 8). No general theorem below unfolds the value.
\<close>

definition SQUARE_SIZE :: uint where
  "SQUARE_SIZE = 8"

subsection \<open>Nodes\<close>

type_synonym node_id = nat

text \<open>
  Modelled from the spec: the node interface (Node.hpp is not part of the
  sources at hand). Each field stands for the getter/setter pair of the same
  name; \<open>xmid\<close> and \<open>zmid\<close> are the derived midpoint getters, kept opaque.
  \<open>nodeState\<close> is the node's own \<open>searchState\<close> scratch field
  (\<open>GetSearchState\<close>/\<open>SetSearchState\<close>).
\<close>

record INode =
  nodeNumber :: uint
  xmin :: uint
  zmin :: uint
  xmax :: uint
  zmax :: uint
  xmid :: uint
  zmid :: uint
  moveCost :: float
  neighbors :: "node_id list"
  nodeState :: uint
  magicNumber :: uint
  prevNode :: "node_id option"
  fCost :: float
  gCost :: float
  hCost :: float
  mCost :: float
  numPrevNodes :: uint

definition NODE_STATE_OPEN :: uint where
  "NODE_STATE_OPEN = 0"

definition NODE_STATE_CLOSED :: uint where
  "NODE_STATE_CLOSED = 1"

datatype search_type = PATH_SEARCH_ASTAR | PATH_SEARCH_DIJKSTRA

text \<open>The search rectangle; its bounds are compared with the unsigned node midpoints.\<close>

record PathRectangle =
  x1 :: uint
  z1 :: uint
  x2 :: uint
  z2 :: uint

text \<open>
  The compile-time switches of the source, as a record of booleans: each
  \<^verbatim>\<open>#ifdef\<close> of the source is a test of the flag of the same name.
  \<open>ENABLE_ASSERTS\<close> is the build without \<open>NDEBUG\<close>, in which a failed
  \<open>assert\<close> aborts.
\<close>

record config =
  QTPFS_SUPPORT_PARTIAL_SEARCHES :: bool
  QTPFS_SMOOTH_PATHS :: bool
  QTPFS_WEIGHTED_HEURISTIC_COST :: bool
  QTPFS_CACHED_EDGE_TRANSITION_POINTS :: bool
  QTPFS_CONSERVATIVE_NEIGHBOR_CACHE_UPDATES :: bool
  ENABLE_ASSERTS :: bool

subsection \<open>Paths and the path cache\<close>

text \<open>
  Modelled from the spec: \<open>IPath\<close> (Path.hpp is not part of the sources at
  hand): an ID, a 64-bit hash, the waypoints, and the bounding box.
\<close>

record IPath =
  pathID :: uint
  pathHash :: "64 word"
  points :: "float3 list"
  boundingBoxMins :: float3
  boundingBoxMaxs :: float3

type_synonym PathCache = "uint \<rightharpoonup> IPath"

subsection \<open>The search object\<close>

text \<open>
  \<open>nodes\<close> is the store of the node layer's nodes; \<open>etp\<close> and \<open>cetp\<close>
  are the two overloads of \<open>INode::GetNeighborEdgeTransitionPoint\<close> (by
  neighbour pointer and reference point, and cached by neighbour index), which
  belong to the node layer and are taken as they are given. \<open>openNodes\<close> is
  the static open heap.
\<close>

record PathSearch =
  nodes :: "node_id \<Rightarrow> INode"
  etp :: "node_id \<Rightarrow> node_id option \<Rightarrow> float3 \<Rightarrow> float3"
  cetp :: "node_id \<Rightarrow> nat \<Rightarrow> float3"
  openNodes :: "node_id list"
  pathCache :: PathCache
  srcNode :: node_id
  tgtNode :: node_id
  curNode :: "node_id option"
  nxtNode :: "node_id option"
  minNode :: node_id
  srcPoint :: float3
  tgtPoint :: float3
  curPoint :: float3
  nxtPoint :: float3
  searchRect :: PathRectangle
  searchState :: uint
  searchMagic :: uint
  searchType :: search_type
  hCostMult :: float
  haveFullPath :: bool
  havePartPath :: bool

section \<open>The open heap\<close>

text \<open>
  Modelled from the spec: \<open>binary_heap\<close> (its header is not part of the
  sources at hand): a min-heap of node pointers keyed by the nodes' current F
  cost, ties broken by insertion order, comparisons strict on F. The heap is
  the list of its nodes in insertion order; \<open>top\<close> is the first node whose F
  no other node undercuts, \<open>pop\<close> removes it, \<open>resort\<close> has nothing to
  restore because the key is read from the node when \<open>top\<close> is taken, and
  \<open>check_heap_property\<close> is a diagnostic without effect.
\<close>

definition heap_reset :: "node_id list" where
  "heap_reset = []"

definition heap_empty :: "node_id list \<Rightarrow> bool" where
  "heap_empty h = (h = [])"

definition heap_push :: "node_id list \<Rightarrow> node_id \<Rightarrow> node_id list" where
  "heap_push h n = h @ [n]"

fun heap_min :: "(node_id \<Rightarrow> float) \<Rightarrow> node_id \<Rightarrow> node_id list \<Rightarrow> node_id" where
  "heap_min F best [] = best"
| "heap_min F best (n # ns) = heap_min F (if flt (F n) (F best) then n else best) ns"

definition heap_top :: "(node_id \<Rightarrow> INode) \<Rightarrow> node_id list \<Rightarrow> node_id" where
  "heap_top ns h = heap_min (\<lambda>n. fCost (ns n)) (hd h) (tl h)"

definition heap_pop :: "(node_id \<Rightarrow> INode) \<Rightarrow> node_id list \<Rightarrow> node_id list" where
  "heap_pop ns h = remove1 (heap_top ns h) h"

definition heap_resort :: "node_id list \<Rightarrow> node_id \<Rightarrow> node_id list" where
  "heap_resort h n = h"

section \<open>Node accessors\<close>

datatype path_cost = NODE_PATH_COST_F | NODE_PATH_COST_G | NODE_PATH_COST_H | NODE_PATH_COST_M

definition GetMoveCost :: "PathSearch \<Rightarrow> node_id \<Rightarrow> float" where
  "GetMoveCost s n = moveCost (nodes s n)"

definition SetMoveCost :: "node_id \<Rightarrow> float \<Rightarrow> PathSearch \<Rightarrow> PathSearch" where
  "SetMoveCost n c s = s\<lparr>nodes := (nodes s)(n := (nodes s n)\<lparr>moveCost := c\<rparr>)\<rparr>"

definition GetSearchState :: "PathSearch \<Rightarrow> node_id \<Rightarrow> uint" where
  "GetSearchState s n = nodeState (nodes s n)"

definition SetSearchState :: "node_id \<Rightarrow> uint \<Rightarrow> PathSearch \<Rightarrow> PathSearch" where
  "SetSearchState n v s = s\<lparr>nodes := (nodes s)(n := (nodes s n)\<lparr>nodeState := v\<rparr>)\<rparr>"

definition SetMagicNumber :: "node_id \<Rightarrow> uint \<Rightarrow> PathSearch \<Rightarrow> PathSearch" where
  "SetMagicNumber n v s = s\<lparr>nodes := (nodes s)(n := (nodes s n)\<lparr>magicNumber := v\<rparr>)\<rparr>"

definition GetPrevNode :: "PathSearch \<Rightarrow> node_id \<Rightarrow> node_id option" where
  "GetPrevNode s n = prevNode (nodes s n)"

definition SetPrevNode :: "node_id \<Rightarrow> node_id option \<Rightarrow> PathSearch \<Rightarrow> PathSearch" where
  "SetPrevNode n v s = s\<lparr>nodes := (nodes s)(n := (nodes s n)\<lparr>prevNode := v\<rparr>)\<rparr>"

definition GetNumPrevNodes :: "PathSearch \<Rightarrow> node_id \<Rightarrow> uint" where
  "GetNumPrevNodes s n = numPrevNodes (nodes s n)"

definition SetNumPrevNodes :: "node_id \<Rightarrow> uint \<Rightarrow> PathSearch \<Rightarrow> PathSearch" where
  "SetNumPrevNodes n v s = s\<lparr>nodes := (nodes s)(n := (nodes s n)\<lparr>numPrevNodes := v\<rparr>)\<rparr>"

fun GetPathCost :: "PathSearch \<Rightarrow> node_id \<Rightarrow> path_cost \<Rightarrow> float" where
  "GetPathCost s n NODE_PATH_COST_F = fCost (nodes s n)"
| "GetPathCost s n NODE_PATH_COST_G = gCost (nodes s n)"
| "GetPathCost s n NODE_PATH_COST_H = hCost (nodes s n)"
| "GetPathCost s n NODE_PATH_COST_M = mCost (nodes s n)"

fun SetPathCost :: "node_id \<Rightarrow> path_cost \<Rightarrow> float \<Rightarrow> PathSearch \<Rightarrow> PathSearch" where
  "SetPathCost n NODE_PATH_COST_F v s = s\<lparr>nodes := (nodes s)(n := (nodes s n)\<lparr>fCost := v\<rparr>)\<rparr>"
| "SetPathCost n NODE_PATH_COST_G v s = s\<lparr>nodes := (nodes s)(n := (nodes s n)\<lparr>gCost := v\<rparr>)\<rparr>"
| "SetPathCost n NODE_PATH_COST_H v s = s\<lparr>nodes := (nodes s)(n := (nodes s n)\<lparr>hCost := v\<rparr>)\<rparr>"
| "SetPathCost n NODE_PATH_COST_M v s = s\<lparr>nodes := (nodes s)(n := (nodes s n)\<lparr>mCost := v\<rparr>)\<rparr>"

section \<open>Initialize\<close>

text \<open>
  Modelled from the spec: the node layer's point-to-node lookup \<open>GetNode\<close>
  and \<open>float3::ClampInBounds\<close> (NodeLayer.hpp and float3.h are not part of
  the sources at hand) are taken as they are given, together with the layer's
  nodes and their edge-transition points. \<open>trunc_uint\<close> is the conversion of
  the float quotient to the \<open>unsigned int\<close> parameter of \<open>GetNode\<close>.
\<close>

record NodeLayer =
  GetNode :: "uint \<Rightarrow> uint \<Rightarrow> node_id"
  GetNodes :: "node_id \<Rightarrow> INode"
  layer_etp :: "node_id \<Rightarrow> node_id option \<Rightarrow> float3 \<Rightarrow> float3"
  layer_cetp :: "node_id \<Rightarrow> nat \<Rightarrow> float3"
  ClampInBounds :: "float3 \<Rightarrow> float3"

definition trunc_uint :: "real \<Rightarrow> uint" where
  "trunc_uint r = word_of_int (if 0 \<le> r then \<lfloor>r\<rfloor> else - \<lfloor>- r\<rfloor>)"

definition Initialize ::
  "NodeLayer \<Rightarrow> PathCache \<Rightarrow> float3 \<Rightarrow> float3 \<Rightarrow> PathRectangle \<Rightarrow> PathSearch \<Rightarrow> PathSearch" where
  "Initialize layer cache sourcePoint targetPoint searchArea s =
     (let s = s\<lparr>srcPoint := ClampInBounds layer sourcePoint\<rparr>;
          s = s\<lparr>tgtPoint := ClampInBounds layer targetPoint\<rparr>;
          s = s\<lparr>curPoint := srcPoint s\<rparr>;
          s = s\<lparr>nxtPoint := tgtPoint s\<rparr>;
          s = s\<lparr>nodes := GetNodes layer, etp := layer_etp layer, cetp := layer_cetp layer\<rparr>;
          s = s\<lparr>pathCache := cache\<rparr>;
          s = s\<lparr>searchRect := searchArea\<rparr>;
          s = s\<lparr>srcNode := GetNode layer (trunc_uint (fx (srcPoint s) / real (unat SQUARE_SIZE)))
                                          (trunc_uint (fz (srcPoint s) / real (unat SQUARE_SIZE)))\<rparr>;
          s = s\<lparr>tgtNode := GetNode layer (trunc_uint (fx (tgtPoint s) / real (unat SQUARE_SIZE)))
                                          (trunc_uint (fz (tgtPoint s) / real (unat SQUARE_SIZE)))\<rparr>;
          s = s\<lparr>curNode := None\<rparr>;
          s = s\<lparr>nxtNode := None\<rparr>
      in s\<lparr>minNode := srcNode s\<rparr>)"

section \<open>UpdateNode, Iterate, Execute\<close>

definition UpdateNode ::
  "config \<Rightarrow> node_id \<Rightarrow> node_id option \<Rightarrow> float \<Rightarrow> float \<Rightarrow> float \<Rightarrow> PathSearch \<Rightarrow> PathSearch" where
  "UpdateNode cfg nxt cur g h m s =
     (let s = SetSearchState nxt (searchState s OR NODE_STATE_OPEN) s;
          s = SetPrevNode nxt cur s;
          s = SetPathCost nxt NODE_PATH_COST_G g s;
          s = SetPathCost nxt NODE_PATH_COST_H (fmul h (hCostMult s)) s;
          s = SetPathCost nxt NODE_PATH_COST_F (fadd g (fmul h (hCostMult s))) s;
          s = SetPathCost nxt NODE_PATH_COST_M m s
      in if QTPFS_WEIGHTED_HEURISTIC_COST cfg
         then SetNumPrevNodes nxt (case cur of None \<Rightarrow> 0 | Some c \<Rightarrow> GetNumPrevNodes s c + 1) s
         else s)"

text \<open>
  The body of the loop over the neighbours of \<open>curNode\<close>, for the neighbour
  \<open>ngb\<close> at index \<open>i\<close>. \<open>cur\<close> is the member \<open>curNode\<close>, which the loop
  does not change.
\<close>

definition Iterate_neighbor ::
  "config \<Rightarrow> float \<Rightarrow> node_id \<Rightarrow> nat \<Rightarrow> node_id \<Rightarrow> PathSearch \<Rightarrow> PathSearch" where
  "Iterate_neighbor cfg hWeight cur i ngb s0 =
     (let s = s0\<lparr>nxtNode := Some ngb\<rparr>;
          s = s\<lparr>nxtPoint := (if QTPFS_CACHED_EDGE_TRANSITION_POINTS cfg then cetp s cur i
                               else etp s cur (Some ngb) (curPoint s))\<rparr>
      in if feq (GetMoveCost s ngb) QTPFS_POSITIVE_INFINITY then s
         else
           let isCurrent = (GetSearchState s ngb \<ge> searchState s);
               isClosed = ((GetSearchState s ngb AND 1) = NODE_STATE_CLOSED);
               isTarget = (ngb = tgtNode s);
               gDist = Fin (distance (curPoint s) (nxtPoint s));
               hDist = Fin (distance (nxtPoint s) (tgtPoint s));
               mCost = fadd (fadd (GetPathCost s cur NODE_PATH_COST_M) (GetMoveCost s cur))
                            (fmul (GetMoveCost s ngb) (float_of_bool isTarget));
               gCost = fadd (fadd (GetPathCost s cur NODE_PATH_COST_G) (fmul (GetMoveCost s cur) gDist))
                            (fmul (fmul (GetMoveCost s ngb) hDist) (float_of_bool isTarget));
               hCost = fmul (fmul hWeight hDist) (float_of_bool (\<not> isTarget))
           in if \<not> isCurrent
              then (let s = UpdateNode cfg ngb (Some cur) gCost hCost mCost s
                    in s\<lparr>openNodes := heap_push (openNodes s) ngb\<rparr>)
              else if fge gCost (GetPathCost s ngb NODE_PATH_COST_G) then s
              else
                (let s = (if isClosed then s\<lparr>openNodes := heap_push (openNodes s) ngb\<rparr> else s);
                     s = UpdateNode cfg ngb (Some cur) gCost hCost mCost s
                 in s\<lparr>openNodes := heap_resort (openNodes s) ngb\<rparr>))"

fun Iterate_neighbors ::
  "config \<Rightarrow> float \<Rightarrow> node_id \<Rightarrow> nat \<Rightarrow> node_id list \<Rightarrow> PathSearch \<Rightarrow> PathSearch" where
  "Iterate_neighbors cfg hWeight cur i [] s = s"
| "Iterate_neighbors cfg hWeight cur i (ngb # ngbs) s =
     Iterate_neighbors cfg hWeight cur (Suc i) ngbs (Iterate_neighbor cfg hWeight cur i ngb s)"

text \<open>\<open>Iterate\<close> is only called with a non-empty open heap (the loop guard of \<open>Execute\<close>).\<close>

definition Iterate :: "config \<Rightarrow> PathSearch \<Rightarrow> PathSearch" where
  "Iterate cfg s0 =
     (let cur = heap_top (nodes s0) (openNodes s0);
          s = s0\<lparr>curNode := Some cur\<rparr>;
          s = SetSearchState cur (searchState s OR NODE_STATE_CLOSED) s;
          s = (if QTPFS_CONSERVATIVE_NEIGHBOR_CACHE_UPDATES cfg
               then SetMagicNumber cur (searchMagic s) s else s);
          s = s\<lparr>openNodes := heap_pop (nodes s) (openNodes s)\<rparr>
      in if cur = tgtNode s then s
         else
           let s = (if cur \<noteq> srcNode s
                    then s\<lparr>curPoint := etp s cur (GetPrevNode s cur) (curPoint s)\<rparr> else s)
           in if feq (GetMoveCost s cur) QTPFS_POSITIVE_INFINITY then s
              else if xmid (nodes s cur) < x1 (searchRect s) then s
              else if zmid (nodes s cur) < z1 (searchRect s) then s
              else if xmid (nodes s cur) > x2 (searchRect s) then s
              else if zmid (nodes s cur) > z2 (searchRect s) then s
              else
                let s = (if QTPFS_SUPPORT_PARTIAL_SEARCHES cfg \<and>
                            flt (GetPathCost s cur NODE_PATH_COST_H)
                                (GetPathCost s (minNode s) NODE_PATH_COST_H)
                         then s\<lparr>minNode := cur\<rparr> else s);
                    hWeight = (if QTPFS_WEIGHTED_HEURISTIC_COST cfg
                               then fsqrt (fdiv (GetPathCost s cur NODE_PATH_COST_M)
                                                (float_of_uint (GetNumPrevNodes s cur + 1)))
                               else Fin 2)
                in Iterate_neighbors cfg hWeight cur 0 (neighbors (nodes s cur)) s)"

text \<open>One round of the \<open>while\<close> loop of \<open>Execute\<close>.\<close>

definition Execute_round :: "config \<Rightarrow> PathSearch \<Rightarrow> PathSearch" where
  "Execute_round cfg s0 =
     (let s = Iterate cfg s0;
          s = s\<lparr>haveFullPath := (curNode s = Some (tgtNode s))\<rparr>;
          s = s\<lparr>havePartPath := (minNode s \<noteq> srcNode s)\<rparr>
      in if haveFullPath s then s\<lparr>openNodes := heap_reset\<rparr> else s)"

partial_function (option) Execute_loop :: "config \<Rightarrow> PathSearch \<Rightarrow> PathSearch option" where
  "Execute_loop cfg s =
     (if heap_empty (openNodes s) then Some s else Execute_loop cfg (Execute_round cfg s))"

text \<open>The part of \<open>Execute\<close> before the loop, after the early-out.\<close>

definition Execute_begin :: "config \<Rightarrow> bool \<Rightarrow> PathSearch \<Rightarrow> PathSearch" where
  "Execute_begin cfg srcBlocked s0 =
     (let s = s0\<lparr>hCostMult := (case searchType s0 of PATH_SEARCH_ASTAR \<Rightarrow> Fin 1
                                                     | PATH_SEARCH_DIJKSTRA \<Rightarrow> Fin 0)\<rparr>;
          s = (if srcBlocked then SetMoveCost (srcNode s) (Fin 0) s else s);
          s = s\<lparr>openNodes := heap_reset\<rparr>;
          s = s\<lparr>openNodes := heap_push (openNodes s) (srcNode s)\<rparr>
      in UpdateNode cfg (srcNode s) None (Fin 0) (Fin (distance (srcPoint s) (tgtPoint s)))
           (GetMoveCost s (srcNode s)) s)"

text \<open>The part of \<open>Execute\<close> after the loop; the Boolean is the return value.\<close>

definition Execute_end :: "config \<Rightarrow> bool \<Rightarrow> PathSearch \<Rightarrow> bool \<times> PathSearch" where
  "Execute_end cfg srcBlocked s0 =
     (let s = (if srcBlocked then SetMoveCost (srcNode s0) QTPFS_POSITIVE_INFINITY s0 else s0);
          s = (if QTPFS_SUPPORT_PARTIAL_SEARCHES cfg \<and> \<not> haveFullPath s \<and> havePartPath s
               then (let s = s\<lparr>tgtNode := minNode s\<rparr>;
                         s = s\<lparr>tgtPoint := (tgtPoint s)
                                \<lparr>fx := real (unat (xmid (nodes s (minNode s)) * SQUARE_SIZE))\<rparr>\<rparr>
                     in s\<lparr>tgtPoint := (tgtPoint s)
                                \<lparr>fz := real (unat (zmid (nodes s (minNode s)) * SQUARE_SIZE))\<rparr>\<rparr>)
               else s)
      in (haveFullPath s \<or> havePartPath s, s))"

text \<open>
  \<open>Execute\<close> returns \<open>None\<close> when the \<open>while\<close> loop does not end, and
  otherwise the return value together with the search object.
\<close>

definition Execute :: "config \<Rightarrow> uint \<Rightarrow> uint \<Rightarrow> PathSearch \<Rightarrow> (bool \<times> PathSearch) option" where
  "Execute cfg searchStateOffset searchMagicNumber s0 =
     (let s = s0\<lparr>searchState := searchStateOffset\<rparr>;
          s = s\<lparr>searchMagic := searchMagicNumber\<rparr>;
          s = s\<lparr>haveFullPath := (srcNode s = tgtNode s)\<rparr>;
          s = s\<lparr>havePartPath := False\<rparr>
      in if haveFullPath s then Some (True, s)
         else
           let srcBlocked = feq (GetMoveCost s (srcNode s)) QTPFS_POSITIVE_INFINITY
           in case Execute_loop cfg (Execute_begin cfg srcBlocked s) of
                None \<Rightarrow> None
              | Some s' \<Rightarrow> Some (Execute_end cfg srcBlocked s'))"

section \<open>GetHash\<close>

text \<open>
  \<open>N\<close> and \<open>k\<close> are \<open>unsigned int\<close>, and so are the node numbers: the sum
  is computed in 32 bits and only the result is widened to the 64-bit return
  type.
\<close>

definition GetHash :: "PathSearch \<Rightarrow> uint \<Rightarrow> uint \<Rightarrow> 64 word" where
  "GetHash s N k =
     ucast (nodeNumber (nodes s (srcNode s)) + (nodeNumber (nodes s (tgtNode s)) * N) + (k * N * N))"

section \<open>Derived forms of the loop bodies\<close>

text \<open>
  Names for the parts of \<open>Iterate\<close>, used to state its effect: the state
  after the first two assignments of the neighbour loop (\<open>ngb_enter\<close>), the
  three cost locals (\<open>ngb_mCost\<close>, \<open>ngb_gCost\<close>, \<open>ngb_hCost\<close>), the
  conditions under which a neighbour is left alone (\<open>ngb_skip\<close>) or pushed
  (\<open>ngb_push\<close>), the state after the pop (\<open>it_pop\<close>), the update of
  \<open>curPoint\<close> (\<open>it_move\<close>), the early returns after it (\<open>it_prune\<close>),
  the book-keeping of \<open>minNode\<close> (\<open>it_min\<close>) and the heuristic weight
  (\<open>it_hWeight\<close>). The lemmas \<open>Iterate_neighbor_eq\<close> and \<open>Iterate_eq\<close>
  below prove that the functions above are composed of exactly these parts.
\<close>

definition ngb_enter :: "config \<Rightarrow> node_id \<Rightarrow> nat \<Rightarrow> node_id \<Rightarrow> PathSearch \<Rightarrow> PathSearch" where
  "ngb_enter cfg cur i ngb s =
     s\<lparr>nxtNode := Some ngb,
       nxtPoint := (if QTPFS_CACHED_EDGE_TRANSITION_POINTS cfg then cetp s cur i
                    else etp s cur (Some ngb) (curPoint s))\<rparr>"

definition ngb_mCost :: "node_id \<Rightarrow> node_id \<Rightarrow> PathSearch \<Rightarrow> float" where
  "ngb_mCost cur ngb s =
     fadd (fadd (mCost (nodes s cur)) (moveCost (nodes s cur)))
          (fmul (moveCost (nodes s ngb)) (float_of_bool (ngb = tgtNode s)))"

definition ngb_gCost :: "node_id \<Rightarrow> node_id \<Rightarrow> PathSearch \<Rightarrow> float" where
  "ngb_gCost cur ngb s =
     fadd (fadd (gCost (nodes s cur))
                (fmul (moveCost (nodes s cur)) (Fin (distance (curPoint s) (nxtPoint s)))))
          (fmul (fmul (moveCost (nodes s ngb)) (Fin (distance (nxtPoint s) (tgtPoint s))))
                (float_of_bool (ngb = tgtNode s)))"

definition ngb_hCost :: "float \<Rightarrow> node_id \<Rightarrow> PathSearch \<Rightarrow> float" where
  "ngb_hCost hWeight ngb s =
     fmul (fmul hWeight (Fin (distance (nxtPoint s) (tgtPoint s))))
          (float_of_bool (ngb \<noteq> tgtNode s))"

definition ngb_skip :: "node_id \<Rightarrow> node_id \<Rightarrow> PathSearch \<Rightarrow> bool" where
  "ngb_skip cur ngb s =
     (moveCost (nodes s ngb) = PInf \<or>
      (searchState s \<le> nodeState (nodes s ngb) \<and>
       fge (ngb_gCost cur ngb s) (gCost (nodes s ngb))))"

definition ngb_push :: "node_id \<Rightarrow> PathSearch \<Rightarrow> bool" where
  "ngb_push ngb s =
     (\<not> searchState s \<le> nodeState (nodes s ngb) \<or> nodeState (nodes s ngb) AND 1 = 1)"

definition it_pop :: "config \<Rightarrow> PathSearch \<Rightarrow> PathSearch" where
  "it_pop cfg s =
     s\<lparr>curNode := Some (heap_top (nodes s) (openNodes s)),
       nodes := (nodes s)(heap_top (nodes s) (openNodes s) :=
          (nodes s (heap_top (nodes s) (openNodes s)))
            \<lparr>nodeState := searchState s OR NODE_STATE_CLOSED,
             magicNumber := (if QTPFS_CONSERVATIVE_NEIGHBOR_CACHE_UPDATES cfg then searchMagic s
                             else magicNumber (nodes s (heap_top (nodes s) (openNodes s))))\<rparr>),
       openNodes := remove1 (heap_top (nodes s) (openNodes s)) (openNodes s)\<rparr>"

definition it_move :: "node_id \<Rightarrow> PathSearch \<Rightarrow> PathSearch" where
  "it_move cur s =
     (if cur \<noteq> srcNode s then s\<lparr>curPoint := etp s cur (prevNode (nodes s cur)) (curPoint s)\<rparr>
      else s)"

definition it_prune :: "node_id \<Rightarrow> PathSearch \<Rightarrow> bool" where
  "it_prune cur s =
     (moveCost (nodes s cur) = PInf \<or> xmid (nodes s cur) < x1 (searchRect s) \<or>
      zmid (nodes s cur) < z1 (searchRect s) \<or> xmid (nodes s cur) > x2 (searchRect s) \<or>
      zmid (nodes s cur) > z2 (searchRect s))"

definition it_min :: "config \<Rightarrow> node_id \<Rightarrow> PathSearch \<Rightarrow> PathSearch" where
  "it_min cfg cur s =
     (if QTPFS_SUPPORT_PARTIAL_SEARCHES cfg \<and>
         flt (hCost (nodes s cur)) (hCost (nodes s (minNode s)))
      then s\<lparr>minNode := cur\<rparr> else s)"

definition it_hWeight :: "config \<Rightarrow> node_id \<Rightarrow> PathSearch \<Rightarrow> float" where
  "it_hWeight cfg cur s =
     (if QTPFS_WEIGHTED_HEURISTIC_COST cfg
      then fsqrt (fdiv (mCost (nodes s cur)) (float_of_uint (numPrevNodes (nodes s cur) + 1)))
      else Fin 2)"

section \<open>Invariants and example layer\<close>

definition Execute_pre :: "uint \<Rightarrow> uint \<Rightarrow> PathSearch \<Rightarrow> PathSearch" where
  "Execute_pre off mg s =
     s\<lparr>searchState := off, searchMagic := mg, haveFullPath := (srcNode s = tgtNode s),
       havePartPath := False\<rparr>"



definition F_inv :: "(node_id \<Rightarrow> INode) \<Rightarrow> float \<Rightarrow> PathSearch \<Rightarrow> bool" where
  "F_inv ns0 m u =
     (hCostMult u = m \<and>
      (\<forall>n. fCost (nodes u n) = fCost (ns0 n) \<and> gCost (nodes u n) = gCost (ns0 n) \<and>
             hCost (nodes u n) = hCost (ns0 n) \<or>
           fCost (nodes u n) = fadd (gCost (nodes u n)) (fmul (hCost (nodes u n)) m)))"

definition zeroish :: "bool \<Rightarrow> float \<Rightarrow> bool" where
  "zeroish w a = (a = Fin 0 \<or> (w \<and> a = NaN))"

definition D_core :: "config \<Rightarrow> (node_id \<Rightarrow> INode) \<Rightarrow> node_id \<Rightarrow> PathSearch \<Rightarrow> bool" where
  "D_core cfg ns0 src u =
     (hCostMult u = Fin 0 \<and> minNode u = src \<and> srcNode u = src \<and>
      zeroish (QTPFS_WEIGHTED_HEURISTIC_COST cfg) (hCost (nodes u src)) \<and>
      (\<forall>n \<in> set (openNodes u). zeroish (QTPFS_WEIGHTED_HEURISTIC_COST cfg) (hCost (nodes u n))) \<and>
      (\<forall>n. hCost (nodes u n) = hCost (ns0 n) \<or>
           zeroish (QTPFS_WEIGHTED_HEURISTIC_COST cfg) (hCost (nodes u n))))"

definition D_inv :: "config \<Rightarrow> (node_id \<Rightarrow> INode) \<Rightarrow> node_id \<Rightarrow> PathSearch \<Rightarrow> bool" where
  "D_inv cfg ns0 src u =
     (D_core cfg ns0 src u \<and> \<not> havePartPath u \<and>
      (haveFullPath u \<longrightarrow> curNode u = Some (tgtNode u)))"



definition ex_blank :: INode where
  "ex_blank = \<lparr>nodeNumber = 0, xmin = 0, zmin = 0, xmax = 0, zmax = 0, xmid = 0, zmid = 0,
     moveCost = Fin 1, neighbors = [], nodeState = 0, magicNumber = 0, prevNode = None,
     fCost = Fin 0, gCost = Fin 0, hCost = Fin 0, mCost = Fin 0, numPrevNodes = 0\<rparr>"

definition ex_node :: "uint \<Rightarrow> uint \<Rightarrow> uint \<Rightarrow> uint \<Rightarrow> float \<Rightarrow> node_id list \<Rightarrow> INode" where
  "ex_node num xa xb xm c ngbs =
     ex_blank\<lparr>nodeNumber := num, xmin := xa, xmax := xb, zmax := 10, xmid := xm, zmid := 5,
       moveCost := c, neighbors := ngbs\<rparr>"

definition ex_nodes :: "float \<Rightarrow> float \<Rightarrow> node_id \<Rightarrow> INode" where
  "ex_nodes c0 c2 =
     (\<lambda>_. ex_blank)(0 := ex_node 0 0 20 10 c0 [1], 1 := ex_node 1 20 25 22 (Fin 1) [0, 2],
        2 := ex_node 2 25 30 27 c2 [1])"

definition ex_pt :: "real \<Rightarrow> float3" where
  "ex_pt a = \<lparr>fx = a, fy = 0, fz = 40\<rparr>"

definition ex_etp :: "node_id \<Rightarrow> node_id option \<Rightarrow> float3 \<Rightarrow> float3" where
  "ex_etp n ngb p = (if n = 0 \<or> ngb = Some 0 then ex_pt 160 else ex_pt 200)"

definition ex_cetp :: "node_id \<Rightarrow> nat \<Rightarrow> float3" where
  "ex_cetp n i = (if n = 0 \<or> (n = 1 \<and> i = 0) then ex_pt 160 else ex_pt 200)"

definition ex_layer :: "float \<Rightarrow> float \<Rightarrow> NodeLayer" where
  "ex_layer c0 c2 =
     \<lparr>GetNode = (\<lambda>sx sz. if sx < 20 then 0 else if sx < 25 then 1 else 2),
      GetNodes = ex_nodes c0 c2, layer_etp = ex_etp, layer_cetp = ex_cetp,
      ClampInBounds = (\<lambda>p. p)\<rparr>"

definition ex_fresh :: PathSearch where
  "ex_fresh = \<lparr>nodes = (\<lambda>_. ex_blank), etp = (\<lambda>_ _ p. p), cetp = (\<lambda>_ _. ex_pt 0), openNodes = [],
     pathCache = Map.empty, srcNode = 0, tgtNode = 0, curNode = None, nxtNode = None, minNode = 0,
     srcPoint = ex_pt 0, tgtPoint = ex_pt 0, curPoint = ex_pt 0, nxtPoint = ex_pt 0,
     searchRect = \<lparr>x1 = 0, z1 = 0, x2 = 0, z2 = 0\<rparr>, searchState = 0, searchMagic = 0,
     searchType = PATH_SEARCH_ASTAR, hCostMult = Fin 0, haveFullPath = False, havePartPath = False\<rparr>"

definition ex_search :: "float \<Rightarrow> float \<Rightarrow> search_type \<Rightarrow> PathSearch" where
  "ex_search c0 c2 ty =
     (Initialize (ex_layer c0 c2) Map.empty (ex_pt 0) (ex_pt 210)
        \<lparr>x1 = 0, z1 = 0, x2 = 100, z2 = 100\<rparr> ex_fresh)\<lparr>searchType := ty\<rparr>"

definition ex_cfg :: config where
  "ex_cfg = \<lparr>QTPFS_SUPPORT_PARTIAL_SEARCHES = True, QTPFS_SMOOTH_PATHS = False,
     QTPFS_WEIGHTED_HEURISTIC_COST = False, QTPFS_CACHED_EDGE_TRANSITION_POINTS = False,
     QTPFS_CONSERVATIVE_NEIGHBOR_CACHE_UPDATES = False, ENABLE_ASSERTS = True\<rparr>"

definition ex_full :: "bool \<times> PathSearch" where
  "ex_full = the (Execute ex_cfg 2 0 (ex_search (Fin 1) (Fin 1) PATH_SEARCH_ASTAR))"

definition ex_part :: "bool \<times> PathSearch" where
  "ex_part = the (Execute ex_cfg 2 0 (ex_search PInf PInf PATH_SEARCH_ASTAR))"

definition ex_dijk :: "bool \<times> PathSearch" where
  "ex_dijk = the (Execute ex_cfg 2 0 (ex_search (Fin 1) (Fin 1) PATH_SEARCH_DIJKSTRA))"



text \<open>
  A state in the middle of a search on the example layer: node 0 has just
  been popped, and node 1 is marked CLOSED in the current search with a stored
  G of 500.
\<close>

definition ex_reopen :: PathSearch where
  "ex_reopen =
     (let s = Execute_begin ex_cfg False (Execute_pre 2 0 (ex_search (Fin 1) (Fin 1) PATH_SEARCH_ASTAR))
      in s\<lparr>nodes := (nodes s)(1 := (nodes s 1)\<lparr>nodeState := 3, gCost := Fin 500\<rparr>),
           openNodes := []\<rparr>)"

text \<open>
  Modelled from the spec: the operations of \<open>IPath\<close> and of \<open>PathCache\<close>
  (Path.hpp, Path.cpp and PathCache.cpp are not part of the sources at hand).
  \<open>allocPoints(n)\<close> gives the path \<open>n\<close> points, \<open>setPoint\<close> and
  \<open>getPoint\<close> write and read the point at an index, the source point is the
  first and the target point the last point, \<open>copyPoints\<close> overwrites the
  point list only, \<open>setBoundingBox\<close> takes the minimum and the maximum over
  all waypoints, and \<open>addLivePath\<close> inserts the path under its ID and fails
  when the ID is already present: nothing is inserted then, and since the
  call is a statement of its own in \<open>SharedFinalize\<close> the caller does not
  see the failure. A write outside the point list is outside the spec;
  \<open>SetPoint\<close> leaves the list as it is there.
\<close>

definition ZeroVector :: float3 where
  "ZeroVector = \<lparr>fx = 0, fy = 0, fz = 0\<rparr>"

definition NumPoints :: "IPath \<Rightarrow> nat" where
  "NumPoints p = length (points p)"

definition AllocPoints :: "nat \<Rightarrow> IPath \<Rightarrow> IPath" where
  "AllocPoints n p = p\<lparr>points := replicate n ZeroVector\<rparr>"

definition SetPoint :: "nat \<Rightarrow> float3 \<Rightarrow> IPath \<Rightarrow> IPath" where
  "SetPoint i v p = p\<lparr>points := (points p)[i := v]\<rparr>"


definition SetSourcePoint :: "float3 \<Rightarrow> IPath \<Rightarrow> IPath" where
  "SetSourcePoint v p = SetPoint 0 v p"

definition SetTargetPoint :: "float3 \<Rightarrow> IPath \<Rightarrow> IPath" where
  "SetTargetPoint v p = SetPoint (NumPoints p - 1) v p"









datatype error = AssertionFailed



definition ex_path :: "uint \<Rightarrow> float3 list \<Rightarrow> IPath" where
  "ex_path i ps =
     \<lparr>pathID = i, pathHash = 0, points = ps, boundingBoxMins = ZeroVector,
      boundingBoxMaxs = ZeroVector\<rparr>"






text \<open>
  One round of the first \<open>while\<close> loop of \<open>TracePath\<close>, entered with
  \<open>prvNode\<close> not \<open>NULL\<close> and \<open>tmpNode\<close> not the source node: the
  failing \<open>assert\<close>, or the new list of points and the search object. (The
  two \<open>assert\<close>s on infinite and NaN coordinates cannot fail on points with
  real coordinates.)
\<close>

definition TracePath_round ::
  "config \<Rightarrow> node_id \<Rightarrow> node_id \<Rightarrow> float3 \<Rightarrow> float3 list \<Rightarrow> PathSearch
     \<Rightarrow> error + (float3 list \<times> PathSearch)" where
  "TracePath_round cfg tmpNode prvNode prvPoint pts s =
     (let tmpPoint = etp s tmpNode (Some prvNode) prvPoint
      in if ENABLE_ASSERTS cfg \<and> \<not> tmpNode \<noteq> prvNode then Inl AssertionFailed
         else if ENABLE_ASSERTS cfg \<and> \<not> (tmpPoint \<noteq> prvPoint \<or> tmpNode = tgtNode s)
         then Inl AssertionFailed
         else
           let pts = (if tmpPoint \<noteq> prvPoint then tmpPoint # pts else pts);
               s = (if \<not> QTPFS_SMOOTH_PATHS cfg then SetPrevNode tmpNode None s else s)
           in Inr (pts, s))"

text \<open>
  The loop itself, on the locals \<open>tmpNode\<close>, \<open>prvNode\<close>, \<open>prvPoint\<close> and
  \<open>points\<close>; \<open>None\<close> when the walk along the back-links does not end.
\<close>

partial_function (option) TracePath_loop ::
  "config \<Rightarrow> node_id \<Rightarrow> node_id option \<Rightarrow> float3 \<Rightarrow> float3 list \<Rightarrow> PathSearch
     \<Rightarrow> (error + (float3 list \<times> PathSearch)) option" where
  "TracePath_loop cfg tmpNode prvNode prvPoint pts s =
     (case prvNode of
        None \<Rightarrow> Some (Inr (pts, s))
      | Some prv \<Rightarrow>
          if tmpNode = srcNode s then Some (Inr (pts, s))
          else
            (case TracePath_round cfg tmpNode prv prvPoint pts s of
               Inl e \<Rightarrow> Some (Inl e)
             | Inr (pts', s') \<Rightarrow>
                 TracePath_loop cfg prv (GetPrevNode s' prv)
                   (etp s tmpNode (Some prv) prvPoint) pts' s'))"

text \<open>The second \<open>while\<close> loop: the points go to the indices 1 to N - 2.\<close>

fun TracePath_fill :: "float3 list \<Rightarrow> IPath \<Rightarrow> IPath" where
  "TracePath_fill [] path = path"
| "TracePath_fill (p # ps) path =
     TracePath_fill ps (SetPoint ((NumPoints path - length (p # ps)) - 1) p path)"

definition TracePath ::
  "config \<Rightarrow> IPath \<Rightarrow> PathSearch \<Rightarrow> (error + (IPath \<times> PathSearch)) option" where
  "TracePath cfg path s0 =
     (case (if srcNode s0 \<noteq> tgtNode s0
            then TracePath_loop cfg (tgtNode s0) (GetPrevNode s0 (tgtNode s0)) (tgtPoint s0) [] s0
            else Some (Inr ([], s0))) of
        None \<Rightarrow> None
      | Some (Inl e) \<Rightarrow> Some (Inl e)
      | Some (Inr (pts, s)) \<Rightarrow>
          if pts = [] \<and> ENABLE_ASSERTS cfg \<and> \<not> NumPoints path = 2 then Some (Inl AssertionFailed)
          else
            let path = (if pts \<noteq> [] then AllocPoints (length pts + 2) path else path);
                path = TracePath_fill pts path;
                path = SetSourcePoint (srcPoint s) path;
                path = SetTargetPoint (tgtPoint s) path
            in Some (Inr (path, s)))"

text \<open>
  The edge-transition points met on the walk from \<open>tmpNode\<close> back to the
  source node, each computed from the one before it (the first from
  \<open>prvPoint\<close>), in the order of the walk, that is from the target to the
  source.
\<close>

partial_function (option) TracePath_walk ::
  "config \<Rightarrow> node_id \<Rightarrow> node_id option \<Rightarrow> float3 \<Rightarrow> PathSearch \<Rightarrow> float3 list option" where
  "TracePath_walk cfg tmpNode prvNode prvPoint s =
     (case prvNode of
        None \<Rightarrow> Some []
      | Some prv \<Rightarrow>
          if tmpNode = srcNode s then Some []
          else
            Option.bind
              (TracePath_walk cfg prv
                 (GetPrevNode (if \<not> QTPFS_SMOOTH_PATHS cfg then SetPrevNode tmpNode None s else s) prv)
                 (etp s tmpNode (Some prv) prvPoint)
                 (if \<not> QTPFS_SMOOTH_PATHS cfg then SetPrevNode tmpNode None s else s))
              (\<lambda>tps. Some (etp s tmpNode (Some prv) prvPoint # tps)))"

definition TracePath_transitions :: "config \<Rightarrow> PathSearch \<Rightarrow> float3 list option" where
  "TracePath_transitions cfg s =
     (if srcNode s \<noteq> tgtNode s
      then TracePath_walk cfg (tgtNode s) (GetPrevNode s (tgtNode s)) (tgtPoint s) s
      else Some [])"

definition ex_back :: "bool \<times> PathSearch" where
  "ex_back = the (Execute ex_cfg 2 0
     (Initialize (ex_layer (Fin 1) (Fin 1)) Map.empty (ex_pt 200) (ex_pt 0)
        \<lparr>x1 = 0, z1 = 0, x2 = 100, z2 = 100\<rparr> ex_fresh))"

definition ex_traced :: "IPath \<times> PathSearch" where
  "ex_traced = projr (the (TracePath ex_cfg (ex_path 3 [ZeroVector, ZeroVector]) (snd ex_full)))"

definition ex_traced_back :: "IPath \<times> PathSearch" where
  "ex_traced_back = projr (the (TracePath ex_cfg (ex_path 3 [ZeroVector, ZeroVector]) (snd ex_back)))"

section \<open>Properties\<close>

subsection \<open>Auxiliary facts\<close>

lemmas accessor_defs = GetMoveCost_def SetMoveCost_def GetSearchState_def SetSearchState_def
  SetMagicNumber_def GetPrevNode_def SetPrevNode_def GetNumPrevNodes_def SetNumPrevNodes_def

lemma UpdateNode_eq:
  "UpdateNode cfg nxt cur g h m s =
     s\<lparr>nodes := (nodes s)(nxt := (nodes s nxt)
        \<lparr>nodeState := searchState s OR NODE_STATE_OPEN, prevNode := cur, gCost := g,
         hCost := fmul h (hCostMult s), fCost := fadd g (fmul h (hCostMult s)), mCost := m,
         numPrevNodes := (if QTPFS_WEIGHTED_HEURISTIC_COST cfg
                          then (case cur of None \<Rightarrow> 0 | Some c \<Rightarrow> numPrevNodes (nodes s c) + 1)
                          else numPrevNodes (nodes s nxt))\<rparr>)\<rparr>"
  unfolding UpdateNode_def Let_def accessor_defs SetPathCost.simps
  apply (cases "QTPFS_WEIGHTED_HEURISTIC_COST cfg")
   apply (cases cur)
    apply (simp_all)
  done

lemma ngb_enter_simps:
  "nodes (ngb_enter cfg cur i ngb s) = nodes s"
  "openNodes (ngb_enter cfg cur i ngb s) = openNodes s"
  "searchState (ngb_enter cfg cur i ngb s) = searchState s"
  "hCostMult (ngb_enter cfg cur i ngb s) = hCostMult s"
  "tgtNode (ngb_enter cfg cur i ngb s) = tgtNode s"
  "srcNode (ngb_enter cfg cur i ngb s) = srcNode s"
  "minNode (ngb_enter cfg cur i ngb s) = minNode s"
  "curNode (ngb_enter cfg cur i ngb s) = curNode s"
  "curPoint (ngb_enter cfg cur i ngb s) = curPoint s"
  "tgtPoint (ngb_enter cfg cur i ngb s) = tgtPoint s"
  by (simp_all add: ngb_enter_def)

lemma UpdateNode_frame:
  "openNodes (UpdateNode cfg n c g h m s) = openNodes s"
  "searchState (UpdateNode cfg n c g h m s) = searchState s"
  "hCostMult (UpdateNode cfg n c g h m s) = hCostMult s"
  "tgtNode (UpdateNode cfg n c g h m s) = tgtNode s"
  "srcNode (UpdateNode cfg n c g h m s) = srcNode s"
  "minNode (UpdateNode cfg n c g h m s) = minNode s"
  "curNode (UpdateNode cfg n c g h m s) = curNode s"
  "curPoint (UpdateNode cfg n c g h m s) = curPoint s"
  "tgtPoint (UpdateNode cfg n c g h m s) = tgtPoint s"
  "searchRect (UpdateNode cfg n c g h m s) = searchRect s"
  by (simp_all add: UpdateNode_eq)

lemma feq_PInf: "feq a QTPFS_POSITIVE_INFINITY = (a = PInf)"
  by (auto simp add: feq_def QTPFS_POSITIVE_INFINITY_def)

lemma ngb_enter_fold:
  "(s\<lparr>nxtNode := Some ngb\<rparr>)\<lparr>nxtPoint :=
      (if QTPFS_CACHED_EDGE_TRANSITION_POINTS cfg then cetp (s\<lparr>nxtNode := Some ngb\<rparr>) cur i
       else etp (s\<lparr>nxtNode := Some ngb\<rparr>) cur (Some ngb) (curPoint (s\<lparr>nxtNode := Some ngb\<rparr>)))\<rparr>
   = ngb_enter cfg cur i ngb s"
  by (simp add: ngb_enter_def)

lemma Iterate_neighbor_eq:
  "Iterate_neighbor cfg hWeight cur i ngb s =
     (if ngb_skip cur ngb (ngb_enter cfg cur i ngb s) then ngb_enter cfg cur i ngb s
      else (UpdateNode cfg ngb (Some cur) (ngb_gCost cur ngb (ngb_enter cfg cur i ngb s))
              (ngb_hCost hWeight ngb (ngb_enter cfg cur i ngb s))
              (ngb_mCost cur ngb (ngb_enter cfg cur i ngb s)) (ngb_enter cfg cur i ngb s))
           \<lparr>openNodes := (if ngb_push ngb s then openNodes s @ [ngb] else openNodes s)\<rparr>)"
proof -
  let ?e = "ngb_enter cfg cur i ngb s"
  have g: "fadd (fadd (GetPathCost ?e cur NODE_PATH_COST_G)
                 (fmul (GetMoveCost ?e cur) (Fin (distance (curPoint ?e) (nxtPoint ?e)))))
            (fmul (fmul (GetMoveCost ?e ngb) (Fin (distance (nxtPoint ?e) (tgtPoint ?e))))
                  (float_of_bool (ngb = tgtNode ?e))) = ngb_gCost cur ngb ?e"
    by (simp add: ngb_gCost_def accessor_defs)
  have m: "fadd (fadd (GetPathCost ?e cur NODE_PATH_COST_M) (GetMoveCost ?e cur))
            (fmul (GetMoveCost ?e ngb) (float_of_bool (ngb = tgtNode ?e))) = ngb_mCost cur ngb ?e"
    by (simp add: ngb_mCost_def accessor_defs)
  have h: "fmul (fmul hWeight (Fin (distance (nxtPoint ?e) (tgtPoint ?e))))
                (float_of_bool (\<not> ngb = tgtNode ?e)) = ngb_hCost hWeight ngb ?e"
    by (simp add: ngb_hCost_def)
  have u: "\<And>g h m t ops. UpdateNode cfg ngb (Some cur) g h m (t\<lparr>openNodes := ops\<rparr>)
             = (UpdateNode cfg ngb (Some cur) g h m t)\<lparr>openNodes := ops\<rparr>"
    by (simp add: UpdateNode_eq)
  show ?thesis
    unfolding Iterate_neighbor_def Let_def ngb_enter_fold g m h
    by (simp add: feq_PInf ngb_skip_def ngb_push_def accessor_defs heap_push_def heap_resort_def
        NODE_STATE_CLOSED_def ngb_enter_simps u UpdateNode_frame)
qed

lemma heap_min_cong: "(\<And>n. F n = G n) \<Longrightarrow> heap_min F b h = heap_min G b h"
  by (induction h arbitrary: b) simp_all

lemma heap_top_cong: "(\<And>n. fCost (f n) = fCost (g n)) \<Longrightarrow> heap_top f h = heap_top g h"
  unfolding heap_top_def by (rule heap_min_cong) simp

lemma it_pop_fold:
  "(let s1 = s\<lparr>curNode := Some (heap_top (nodes s) (openNodes s))\<rparr>;
        s2 = SetSearchState (heap_top (nodes s) (openNodes s)) (searchState s1 OR NODE_STATE_CLOSED) s1;
        s3 = (if QTPFS_CONSERVATIVE_NEIGHBOR_CACHE_UPDATES cfg
               then SetMagicNumber (heap_top (nodes s) (openNodes s)) (searchMagic s2) s2 else s2)
    in s3\<lparr>openNodes := heap_pop (nodes s3) (openNodes s3)\<rparr>) = it_pop cfg s"
proof -
  let ?c = "heap_top (nodes s) (openNodes s)"
  have 1: "heap_top ((nodes s)(?c := (nodes s ?c)\<lparr>nodeState := v\<rparr>)) h = heap_top (nodes s) h" for v h
    by (rule heap_top_cong) simp
  have 2: "heap_top ((nodes s)(?c := (nodes s ?c)\<lparr>nodeState := v, magicNumber := w\<rparr>)) h = heap_top (nodes s) h" for v w h
    by (rule heap_top_cong) simp
  show ?thesis
    unfolding Let_def accessor_defs heap_pop_def it_pop_def
    by (cases "QTPFS_CONSERVATIVE_NEIGHBOR_CACHE_UPDATES cfg") (simp_all add: 1 2)
qed

lemma Iterate_eq:
  "Iterate cfg s =
     (if heap_top (nodes s) (openNodes s) = tgtNode s then it_pop cfg s
      else if it_prune (heap_top (nodes s) (openNodes s)) (it_pop cfg s)
      then it_move (heap_top (nodes s) (openNodes s)) (it_pop cfg s)
      else Iterate_neighbors cfg
             (it_hWeight cfg (heap_top (nodes s) (openNodes s)) (it_pop cfg s))
             (heap_top (nodes s) (openNodes s)) 0
             (neighbors (nodes s (heap_top (nodes s) (openNodes s))))
             (it_min cfg (heap_top (nodes s) (openNodes s))
                (it_move (heap_top (nodes s) (openNodes s)) (it_pop cfg s))))"
proof -
  let ?c = "heap_top (nodes s) (openNodes s)"
  have a: "Iterate cfg s =
     (let s4 = it_pop cfg s in
      if ?c = tgtNode s4 then s4
         else
           let s5 = (if ?c \<noteq> srcNode s4
                    then s4\<lparr>curPoint := etp s4 ?c (GetPrevNode s4 ?c) (curPoint s4)\<rparr> else s4)
           in if feq (GetMoveCost s5 ?c) QTPFS_POSITIVE_INFINITY then s5
              else if xmid (nodes s5 ?c) < x1 (searchRect s5) then s5
              else if zmid (nodes s5 ?c) < z1 (searchRect s5) then s5
              else if xmid (nodes s5 ?c) > x2 (searchRect s5) then s5
              else if zmid (nodes s5 ?c) > z2 (searchRect s5) then s5
              else
                let s6 = (if QTPFS_SUPPORT_PARTIAL_SEARCHES cfg \<and>
                            flt (GetPathCost s5 ?c NODE_PATH_COST_H)
                                (GetPathCost s5 (minNode s5) NODE_PATH_COST_H)
                         then s5\<lparr>minNode := ?c\<rparr> else s5);
                    hWeight = (if QTPFS_WEIGHTED_HEURISTIC_COST cfg
                               then fsqrt (fdiv (GetPathCost s6 ?c NODE_PATH_COST_M)
                                                (float_of_uint (GetNumPrevNodes s6 ?c + 1)))
                               else Fin 2)
                in Iterate_neighbors cfg hWeight ?c 0 (neighbors (nodes s6 ?c)) s6)"
    unfolding Iterate_def it_pop_fold[symmetric] Let_def ..
  have m: "(if ?c \<noteq> srcNode t then t\<lparr>curPoint := etp t ?c (GetPrevNode t ?c) (curPoint t)\<rparr> else t)
            = it_move ?c t" for t
    by (simp add: it_move_def accessor_defs)
  have mn: "(if QTPFS_SUPPORT_PARTIAL_SEARCHES cfg \<and>
                flt (GetPathCost t ?c NODE_PATH_COST_H) (GetPathCost t (minNode t) NODE_PATH_COST_H)
             then t\<lparr>minNode := ?c\<rparr> else t) = it_min cfg ?c t" for t
    by (simp add: it_min_def)
  have hw: "(if QTPFS_WEIGHTED_HEURISTIC_COST cfg
             then fsqrt (fdiv (GetPathCost t ?c NODE_PATH_COST_M) (float_of_uint (GetNumPrevNodes t ?c + 1)))
             else Fin 2) = it_hWeight cfg ?c t" for t
    by (simp add: it_hWeight_def accessor_defs)
  have fr: "tgtNode (it_pop cfg s) = tgtNode s" "srcNode (it_pop cfg s) = srcNode s"
    "neighbors (nodes (it_pop cfg s) ?c) = neighbors (nodes s ?c)"
    by (simp_all add: it_pop_def)
  have mv: "nodes (it_move ?c t) = nodes t" "searchRect (it_move ?c t) = searchRect t" for t
    by (simp_all add: it_move_def)
  have mi: "nodes (it_min cfg ?c t) = nodes t" for t
    by (simp add: it_min_def)
  show ?thesis
    unfolding a Let_def m mn hw
    by (simp add: fr mv mi it_prune_def feq_PInf accessor_defs it_hWeight_def)
qed

lemma heap_min_in: "heap_min F b h \<in> insert b (set h)"
  by (induction h arbitrary: b) (simp, force)

lemma heap_top_in: "h \<noteq> [] \<Longrightarrow> heap_top ns h \<in> set h"
  unfolding heap_top_def using heap_min_in [of "\<lambda>n. fCost (ns n)" "hd h" "tl h"]
  by (cases h) auto

lemma ngb_enter_eq:
  "ngb_enter cfg cur i ngb s = s\<lparr>nxtNode := Some ngb, nxtPoint := nxtPoint (ngb_enter cfg cur i ngb s)\<rparr>"
  by (simp add: ngb_enter_def)

lemma Iterate_neighbor_rule:
  assumes I: "I s"
    and enter: "\<And>t p. I t \<Longrightarrow> I (t\<lparr>nxtNode := Some ngb, nxtPoint := p\<rparr>)"
    and upd: "\<And>t ops. I t \<Longrightarrow> moveCost (nodes t ngb) \<noteq> PInf \<Longrightarrow>
                ops = openNodes t \<or> ops = openNodes t @ [ngb] \<Longrightarrow>
                I ((UpdateNode cfg ngb (Some cur) (ngb_gCost cur ngb t) (ngb_hCost hWeight ngb t)
                      (ngb_mCost cur ngb t) t)\<lparr>openNodes := ops\<rparr>)"
  shows "I (Iterate_neighbor cfg hWeight cur i ngb s)"
proof -
  let ?e = "ngb_enter cfg cur i ngb s"
  have e: "I ?e" by (subst ngb_enter_eq) (rule enter [OF I])
  show ?thesis
  proof (cases "ngb_skip cur ngb ?e")
    case True
    then show ?thesis by (simp add: Iterate_neighbor_eq e)
  next
    case False
    then have mc: "moveCost (nodes ?e ngb) \<noteq> PInf" by (simp add: ngb_skip_def)
    have "I ((UpdateNode cfg ngb (Some cur) (ngb_gCost cur ngb ?e) (ngb_hCost hWeight ngb ?e)
                (ngb_mCost cur ngb ?e) ?e)
             \<lparr>openNodes := (if ngb_push ngb s then openNodes s @ [ngb] else openNodes s)\<rparr>)"
      by (rule upd [OF e mc]) (simp add: ngb_enter_simps)
    with False show ?thesis by (simp add: Iterate_neighbor_eq)
  qed
qed

lemma Iterate_neighbors_rule:
  assumes "\<And>i ngb t. I t \<Longrightarrow> I (Iterate_neighbor cfg hWeight cur i ngb t)" and "I s"
  shows "I (Iterate_neighbors cfg hWeight cur i ngbs s)"
  using assms(2) by (induction ngbs arbitrary: i s) (simp_all add: assms(1))

lemma UpdateNode_moveCost: "moveCost (nodes (UpdateNode cfg n c g h m s) k) = moveCost (nodes s k)"
  by (simp add: UpdateNode_eq)

lemma Execute_round_eq:
  "Execute_round cfg s =
     (Iterate cfg s)\<lparr>haveFullPath := (curNode (Iterate cfg s) = Some (tgtNode (Iterate cfg s))),
        havePartPath := (minNode (Iterate cfg s) \<noteq> srcNode (Iterate cfg s)),
        openNodes := (if curNode (Iterate cfg s) = Some (tgtNode (Iterate cfg s)) then []
                      else openNodes (Iterate cfg s))\<rparr>"
  unfolding Execute_round_def Let_def heap_reset_def by simp

lemma it_move_nodes: "nodes (it_move c t) = nodes t"
  by (simp add: it_move_def)

lemma it_min_nodes: "nodes (it_min cfg c t) = nodes t"
  by (simp add: it_min_def)

lemma Execute_round_rule:
  assumes pop: "K (heap_top (nodes s) (openNodes s)) (it_pop cfg s)"
    and move: "\<And>c t p. K c t \<Longrightarrow> K c (t\<lparr>curPoint := p\<rparr>)"
    and minu: "\<And>c t. K c t \<Longrightarrow> QTPFS_SUPPORT_PARTIAL_SEARCHES cfg \<Longrightarrow>
                 flt (hCost (nodes t c)) (hCost (nodes t (minNode t))) \<Longrightarrow> K c (t\<lparr>minNode := c\<rparr>)"
    and enter: "\<And>c t n p. K c t \<Longrightarrow> K c (t\<lparr>nxtNode := Some n, nxtPoint := p\<rparr>)"
    and upd: "\<And>c t n hW ops. K c t \<Longrightarrow> moveCost (nodes t c) \<noteq> PInf \<Longrightarrow>
                moveCost (nodes t n) \<noteq> PInf \<Longrightarrow> ops = openNodes t \<or> ops = openNodes t @ [n] \<Longrightarrow>
                hW = Fin 2 \<or> QTPFS_WEIGHTED_HEURISTIC_COST cfg \<Longrightarrow>
                K c ((UpdateNode cfg n (Some c) (ngb_gCost c n t) (ngb_hCost hW n t)
                        (ngb_mCost c n t) t)\<lparr>openNodes := ops\<rparr>)"
    and fin: "\<And>c t. K c t \<Longrightarrow>
                I (t\<lparr>haveFullPath := (curNode t = Some (tgtNode t)),
                     havePartPath := (minNode t \<noteq> srcNode t),
                     openNodes := (if curNode t = Some (tgtNode t) then [] else openNodes t)\<rparr>)"
  shows "I (Execute_round cfg s)"
proof -
  let ?c = "heap_top (nodes s) (openNodes s)"
  have p: "K ?c (it_pop cfg s)" by (rule pop)
  have mv: "K ?c (it_move ?c (it_pop cfg s))"
  proof (cases "?c \<noteq> srcNode (it_pop cfg s)")
    case True
    then show ?thesis unfolding it_move_def using move [OF p] by simp
  next
    case False
    then have "it_move ?c (it_pop cfg s) = it_pop cfg s" by (simp add: it_move_def)
    then show ?thesis using p by (simp only:)
  qed
  have mn: "K ?c (it_min cfg ?c (it_move ?c (it_pop cfg s)))"
    unfolding it_min_def using mv minu [OF mv] by simp
  have "K ?c (Iterate cfg s)"
  proof (cases "?c = tgtNode s")
    case True
    then have "Iterate cfg s = it_pop cfg s" by (simp add: Iterate_eq)
    then show ?thesis using p by (simp only:)
  next
    case nt: False
    show ?thesis
    proof (cases "it_prune ?c (it_pop cfg s)")
      case True
      with nt have "Iterate cfg s = it_move ?c (it_pop cfg s)" by (simp add: Iterate_eq)
      then show ?thesis using mv by (simp only:)
    next
      case False
      then have "moveCost (nodes (it_pop cfg s) ?c) \<noteq> PInf" by (simp add: it_prune_def)
      then have mc: "moveCost (nodes (it_min cfg ?c (it_move ?c (it_pop cfg s))) ?c) \<noteq> PInf"
        by (simp add: it_min_nodes it_move_nodes)
      let ?L = "\<lambda>t. K ?c t \<and> moveCost (nodes t ?c) \<noteq> PInf"
      have "?L (Iterate_neighbors cfg (it_hWeight cfg ?c (it_pop cfg s)) ?c 0
                  (neighbors (nodes s ?c)) (it_min cfg ?c (it_move ?c (it_pop cfg s))))"
      proof (rule Iterate_neighbors_rule [where I = ?L])
        show "?L (it_min cfg ?c (it_move ?c (it_pop cfg s)))" using mn mc by simp
      next
        fix i ngb t assume L: "?L t"
        show "?L (Iterate_neighbor cfg (it_hWeight cfg ?c (it_pop cfg s)) ?c i ngb t)"
        proof (rule Iterate_neighbor_rule [where I = ?L])
          show "?L t" by (rule L)
        next
          fix t p assume "?L t"
          then show "?L (t\<lparr>nxtNode := Some ngb, nxtPoint := p\<rparr>)" by (simp add: enter)
        next
          fix t ops
          assume "?L t" "moveCost (nodes t ngb) \<noteq> PInf"
            "ops = openNodes t \<or> ops = openNodes t @ [ngb]"
          then show "?L ((UpdateNode cfg ngb (Some ?c) (ngb_gCost ?c ngb t)
                (ngb_hCost (it_hWeight cfg ?c (it_pop cfg s)) ngb t) (ngb_mCost ?c ngb t) t)
                \<lparr>openNodes := ops\<rparr>)"
            using upd [of ?c t ngb ops "it_hWeight cfg ?c (it_pop cfg s)"]
            by (simp add: UpdateNode_moveCost it_hWeight_def)
        qed
      qed
      moreover from nt False have "Iterate cfg s =
          Iterate_neighbors cfg (it_hWeight cfg ?c (it_pop cfg s)) ?c 0
            (neighbors (nodes s ?c)) (it_min cfg ?c (it_move ?c (it_pop cfg s)))"
        by (simp add: Iterate_eq)
      ultimately show ?thesis by (simp only:)
    qed
  qed
  then show ?thesis
    unfolding Execute_round_eq by (rule fin)
qed

lemma Execute_loop_rule:
  assumes step: "\<And>t. I t \<Longrightarrow> openNodes t \<noteq> [] \<Longrightarrow> I (Execute_round cfg t)"
    and init: "I s" and run: "Execute_loop cfg s = Some s'"
  shows "I s' \<and> openNodes s' = []"
proof -
  have "cfg = cfg \<longrightarrow> I s \<longrightarrow> I s' \<and> openNodes s' = []"
  proof (rule Execute_loop.raw_induct
      [where P = "\<lambda>c t t'. c = cfg \<longrightarrow> I t \<longrightarrow> I t' \<and> openNodes t' = []", OF _ run])
    fix f c t t'
    assume IH: "\<And>x b y. f x b = Some y \<Longrightarrow> x = cfg \<longrightarrow> I b \<longrightarrow> I y \<and> openNodes y = []"
      and eq: "(if heap_empty (openNodes t) then Some t else f c (Execute_round c t)) = Some t'"
    show "c = cfg \<longrightarrow> I t \<longrightarrow> I t' \<and> openNodes t' = []"
    proof (intro impI)
      assume c: "c = cfg" and t: "I t"
      show "I t' \<and> openNodes t' = []"
      proof (cases "openNodes t = []")
        case True
        with eq t show ?thesis by (simp add: heap_empty_def)
      next
        case False
        with eq have "f c (Execute_round c t) = Some t'" by (simp add: heap_empty_def)
        from IH [OF this] c step [OF t False] show ?thesis by simp
      qed
    qed
  qed
  with init show ?thesis by simp
qed

lemma Execute_eq:
  "Execute cfg off mg s =
     (if srcNode s = tgtNode s then Some (True, Execute_pre off mg s)
      else case Execute_loop cfg
                  (Execute_begin cfg (moveCost (nodes s (srcNode s)) = PInf) (Execute_pre off mg s)) of
             None \<Rightarrow> None
           | Some t \<Rightarrow> Some (Execute_end cfg (moveCost (nodes s (srcNode s)) = PInf) t))"
proof -
  have a: "s\<lparr>searchState := off\<rparr>\<lparr>searchMagic := mg\<rparr>
            \<lparr>haveFullPath := (srcNode (s\<lparr>searchState := off\<rparr>\<lparr>searchMagic := mg\<rparr>) =
                              tgtNode (s\<lparr>searchState := off\<rparr>\<lparr>searchMagic := mg\<rparr>))\<rparr>
            \<lparr>havePartPath := False\<rparr> = Execute_pre off mg s"
    by (simp add: Execute_pre_def)
  have b: "feq (GetMoveCost (Execute_pre off mg s) (srcNode (Execute_pre off mg s)))
             QTPFS_POSITIVE_INFINITY = (moveCost (nodes s (srcNode s)) = PInf)"
    by (simp add: Execute_pre_def feq_PInf accessor_defs)
  have c: "haveFullPath (Execute_pre off mg s) = (srcNode s = tgtNode s)"
    by (simp add: Execute_pre_def)
  show ?thesis
    unfolding Execute_def Let_def a b c by simp
qed

lemma Execute_run:
  assumes "Execute cfg off mg s = Some (r, s')" and "srcNode s \<noteq> tgtNode s"
  obtains t where
    "Execute_loop cfg (Execute_begin cfg (moveCost (nodes s (srcNode s)) = PInf)
        (Execute_pre off mg s)) = Some t"
    "Execute_end cfg (moveCost (nodes s (srcNode s)) = PInf) t = (r, s')"
  using assms by (auto simp add: Execute_eq split: option.splits)

lemma Execute_begin_eq:
  "Execute_begin cfg b s =
     s\<lparr>hCostMult := (case searchType s of PATH_SEARCH_ASTAR \<Rightarrow> Fin 1 | PATH_SEARCH_DIJKSTRA \<Rightarrow> Fin 0),
       openNodes := [srcNode s],
       nodes := (nodes s)(srcNode s := (nodes s (srcNode s))
         \<lparr>moveCost := (if b then Fin 0 else moveCost (nodes s (srcNode s))),
          nodeState := searchState s OR NODE_STATE_OPEN, prevNode := None, gCost := Fin 0,
          hCost := fmul (Fin (distance (srcPoint s) (tgtPoint s)))
                     (case searchType s of PATH_SEARCH_ASTAR \<Rightarrow> Fin 1 | PATH_SEARCH_DIJKSTRA \<Rightarrow> Fin 0),
          fCost := fadd (Fin 0) (fmul (Fin (distance (srcPoint s) (tgtPoint s)))
                     (case searchType s of PATH_SEARCH_ASTAR \<Rightarrow> Fin 1 | PATH_SEARCH_DIJKSTRA \<Rightarrow> Fin 0)),
          mCost := (if b then Fin 0 else moveCost (nodes s (srcNode s))),
          numPrevNodes := (if QTPFS_WEIGHTED_HEURISTIC_COST cfg then 0
                           else numPrevNodes (nodes s (srcNode s)))\<rparr>)\<rparr>"
  unfolding Execute_begin_def Let_def UpdateNode_eq accessor_defs heap_reset_def heap_push_def
  by (cases b) simp_all

lemma Execute_end_eq:
  "Execute_end cfg b t =
     (if QTPFS_SUPPORT_PARTIAL_SEARCHES cfg \<and> \<not> haveFullPath t \<and> havePartPath t
      then (True,
            t\<lparr>nodes := (if b then (nodes t)(srcNode t := (nodes t (srcNode t))\<lparr>moveCost := PInf\<rparr>)
                         else nodes t),
              tgtNode := minNode t,
              tgtPoint := (tgtPoint t)
                \<lparr>fx := real (unat (xmid (nodes t (minNode t)) * SQUARE_SIZE)),
                 fz := real (unat (zmid (nodes t (minNode t)) * SQUARE_SIZE))\<rparr>\<rparr>)
      else (haveFullPath t \<or> havePartPath t,
            t\<lparr>nodes := (if b then (nodes t)(srcNode t := (nodes t (srcNode t))\<lparr>moveCost := PInf\<rparr>)
                         else nodes t)\<rparr>))"
  unfolding Execute_end_def Let_def accessor_defs QTPFS_POSITIVE_INFINITY_def
  by (cases b) simp_all

lemma Execute_round_static:
  "srcNode (Execute_round cfg s) = srcNode s \<and> tgtNode (Execute_round cfg s) = tgtNode s \<and>
   hCostMult (Execute_round cfg s) = hCostMult s \<and> searchState (Execute_round cfg s) = searchState s \<and>
   srcPoint (Execute_round cfg s) = srcPoint s \<and> tgtPoint (Execute_round cfg s) = tgtPoint s \<and>
   (\<forall>n. moveCost (nodes (Execute_round cfg s) n) = moveCost (nodes s n))"
  by (rule Execute_round_rule [where K = "\<lambda>c u. srcNode u = srcNode s \<and> tgtNode u = tgtNode s \<and>
        hCostMult u = hCostMult s \<and> searchState u = searchState s \<and>
        srcPoint u = srcPoint s \<and> tgtPoint u = tgtPoint s \<and>
        (\<forall>n. moveCost (nodes u n) = moveCost (nodes s n))"])
     (simp_all add: it_pop_def UpdateNode_eq)


lemma fmul_idem: "m = Fin 0 \<or> m = Fin 1 \<Longrightarrow> fmul (fmul h m) m = fmul h m"
  by (cases h) (auto simp add: inf_signed_def)

lemma Execute_round_F:
  assumes inv: "F_inv ns0 m s" and m: "m = Fin 0 \<or> m = Fin 1"
  shows "F_inv ns0 m (Execute_round cfg s)"
proof (rule Execute_round_rule [where K = "\<lambda>c u. F_inv ns0 m u"])
  show "F_inv ns0 m (it_pop cfg s)"
    using inv by (simp add: F_inv_def it_pop_def)
next
  fix c t n hW ops
  assume K: "F_inv ns0 m t"
  then show "F_inv ns0 m (UpdateNode cfg n (Some c) (ngb_gCost c n t) (ngb_hCost hW n t)
          (ngb_mCost c n t) t\<lparr>openNodes := ops\<rparr>)"
    using fmul_idem [OF m] by (simp add: F_inv_def UpdateNode_eq)
qed (simp_all add: F_inv_def)

lemma flt_zeroish: "zeroish w a \<Longrightarrow> zeroish w b \<Longrightarrow> \<not> flt a b"
  by (auto simp add: zeroish_def)

lemma fmul_zero_zeroish: "hW = Fin 2 \<or> w \<Longrightarrow> zeroish w (fmul (ngb_hCost hW n t) (Fin 0))"
proof -
  have a: "fmul x (Fin 0) = Fin 0 \<or> fmul x (Fin 0) = NaN" for x
    by (cases x) (simp_all add: inf_signed_def)
  have b: "fmul (ngb_hCost (Fin 2) n t) (Fin 0) = Fin 0"
    by (simp add: ngb_hCost_def float_of_bool_def)
  assume "hW = Fin 2 \<or> w"
  then show ?thesis using a [of "ngb_hCost hW n t"] b by (auto simp add: zeroish_def)
qed

lemma Execute_round_D:
  assumes inv: "D_inv cfg ns0 src s" and ne: "openNodes s \<noteq> []"
  shows "D_inv cfg ns0 src (Execute_round cfg s)"
proof (rule Execute_round_rule [where K = "\<lambda>c u. D_core cfg ns0 src u \<and>
         zeroish (QTPFS_WEIGHTED_HEURISTIC_COST cfg) (hCost (nodes u c))"])
  show "D_core cfg ns0 src (it_pop cfg s) \<and>
        zeroish (QTPFS_WEIGHTED_HEURISTIC_COST cfg)
          (hCost (nodes (it_pop cfg s) (heap_top (nodes s) (openNodes s))))"
    using inv heap_top_in [OF ne, of "nodes s"]
    by (auto simp add: D_inv_def D_core_def it_pop_def dest: notin_set_remove1)
next
  fix c t
  assume "D_core cfg ns0 src t \<and> zeroish (QTPFS_WEIGHTED_HEURISTIC_COST cfg) (hCost (nodes t c))"
    and "flt (hCost (nodes t c)) (hCost (nodes t (minNode t)))"
  then have False using flt_zeroish by (auto simp add: D_core_def)
  then show "D_core cfg ns0 src (t\<lparr>minNode := c\<rparr>) \<and>
        zeroish (QTPFS_WEIGHTED_HEURISTIC_COST cfg) (hCost (nodes (t\<lparr>minNode := c\<rparr>) c))" ..
next
  fix c t n hW ops
  assume K: "D_core cfg ns0 src t \<and> zeroish (QTPFS_WEIGHTED_HEURISTIC_COST cfg) (hCost (nodes t c))"
    and ops: "ops = openNodes t \<or> ops = openNodes t @ [n]"
    and hW: "hW = Fin 2 \<or> QTPFS_WEIGHTED_HEURISTIC_COST cfg"
  from K have m: "hCostMult t = Fin 0" by (simp add: D_core_def)
  from fmul_zero_zeroish [OF hW, of n t] K ops
  show "D_core cfg ns0 src (UpdateNode cfg n (Some c) (ngb_gCost c n t) (ngb_hCost hW n t)
          (ngb_mCost c n t) t\<lparr>openNodes := ops\<rparr>) \<and>
        zeroish (QTPFS_WEIGHTED_HEURISTIC_COST cfg)
          (hCost (nodes (UpdateNode cfg n (Some c) (ngb_gCost c n t) (ngb_hCost hW n t)
          (ngb_mCost c n t) t\<lparr>openNodes := ops\<rparr>) c))"
    by (auto simp add: D_core_def UpdateNode_eq m)
qed (auto simp add: D_inv_def D_core_def)

lemma Execute_loop_static:
  assumes "Execute_loop cfg s = Some t"
  shows "srcNode t = srcNode s \<and> tgtNode t = tgtNode s \<and> hCostMult t = hCostMult s \<and>
         searchState t = searchState s \<and> srcPoint t = srcPoint s \<and> tgtPoint t = tgtPoint s \<and>
         (\<forall>n. moveCost (nodes t n) = moveCost (nodes s n))"
  using Execute_loop_rule [where I = "\<lambda>u. srcNode u = srcNode s \<and> tgtNode u = tgtNode s \<and>
        hCostMult u = hCostMult s \<and> searchState u = searchState s \<and>
        srcPoint u = srcPoint s \<and> tgtPoint u = tgtPoint s \<and>
        (\<forall>n. moveCost (nodes u n) = moveCost (nodes s n))", OF _ _ assms]
    Execute_round_static [of cfg]
  by simp

lemma Execute_loop_F:
  assumes "Execute_loop cfg s = Some t" and "F_inv ns0 m s" and "m = Fin 0 \<or> m = Fin 1"
  shows "F_inv ns0 m t"
  using Execute_loop_rule [where I = "F_inv ns0 m", OF _ assms(2) assms(1)]
    Execute_round_F [OF _ assms(3)]
  by blast

lemma Execute_loop_D:
  assumes "Execute_loop cfg s = Some t" and "D_inv cfg ns0 src s"
  shows "D_inv cfg ns0 src t"
  using Execute_loop_rule [where I = "D_inv cfg ns0 src", OF _ assms(2) assms(1)] Execute_round_D
  by blast

lemmas ex_defs = ex_blank_def ex_node_def ex_nodes_def ex_pt_def ex_etp_def ex_cetp_def ex_layer_def
  ex_fresh_def ex_search_def ex_cfg_def

lemmas model_defs = Initialize_def trunc_uint_def SQUARE_SIZE_def Execute_def Execute_begin_def
  Execute_end_def Execute_round_def Iterate_def Iterate_neighbor_def UpdateNode_def
  accessor_defs heap_reset_def heap_empty_def heap_push_def heap_top_def heap_pop_def heap_resort_def
  NODE_STATE_OPEN_def NODE_STATE_CLOSED_def QTPFS_POSITIVE_INFINITY_def
  feq_def float_of_bool_def float_of_uint_def distance_def SqDistance_def inf_signed_def

lemma Execute_loop_stop: "openNodes s = [] \<Longrightarrow> Execute_loop cfg s = Some s"
  by (subst Execute_loop.simps) (simp add: heap_empty_def)

lemma Execute_loop_go:
  "openNodes s \<noteq> [] \<Longrightarrow> Execute_loop cfg s = Execute_loop cfg (Execute_round cfg s)"
  by (subst Execute_loop.simps) (simp add: heap_empty_def)

lemma ex_part_run:
  "Execute ex_cfg 2 0 (ex_search PInf PInf PATH_SEARCH_ASTAR) = Some ex_part"
proof -
  have "Execute ex_cfg 2 0 (ex_search PInf PInf PATH_SEARCH_ASTAR) \<noteq> None"
    by (simp add: ex_defs model_defs Let_def Execute_loop_stop Execute_loop_go cong: let_weak_cong)
  then show ?thesis by (auto simp add: ex_part_def)
qed

lemma ex_part_flags:
  "\<not> haveFullPath (snd ex_part)" "havePartPath (snd ex_part)"
  by (simp_all add: ex_part_def ex_defs model_defs Let_def Execute_loop_stop Execute_loop_go
      cong: let_weak_cong)

lemma ex_part_xmid:
  "xmid (nodes (snd ex_part) (minNode (snd ex_part))) = 22"
  "zmid (nodes (snd ex_part) (minNode (snd ex_part))) = 5"
  by (simp_all add: ex_part_def ex_defs model_defs Let_def Execute_loop_stop Execute_loop_go
      cong: let_weak_cong)

lemmas ex_eval = ex_defs model_defs Let_def Execute_loop_stop Execute_loop_go

lemma ex_full_run:
  "Execute ex_cfg 2 0 (ex_search (Fin 1) (Fin 1) PATH_SEARCH_ASTAR) = Some ex_full"
proof -
  have "Execute ex_cfg 2 0 (ex_search (Fin 1) (Fin 1) PATH_SEARCH_ASTAR) \<noteq> None"
    by (simp add: ex_eval cong: let_weak_cong)
  then show ?thesis by (auto simp add: ex_full_def)
qed

lemma ex_dijk_run:
  "Execute ex_cfg 2 0 (ex_search (Fin 1) (Fin 1) PATH_SEARCH_DIJKSTRA) = Some ex_dijk"
proof -
  have "Execute ex_cfg 2 0 (ex_search (Fin 1) (Fin 1) PATH_SEARCH_DIJKSTRA) \<noteq> None"
    by (simp add: ex_eval cong: let_weak_cong)
  then show ?thesis by (auto simp add: ex_dijk_def)
qed








lemma ex_search_nodes:
  "srcNode (ex_search c0 c2 ty) = 0" "tgtNode (ex_search c0 c2 ty) = 2"
  "minNode (ex_search c0 c2 ty) = 0"
  by (simp_all add: ex_defs Initialize_def trunc_uint_def SQUARE_SIZE_def Let_def cong: let_weak_cong)

lemma ex_search_type: "searchType (ex_search c0 c2 ty) = ty"
  by (simp add: ex_defs Initialize_def Let_def cong: let_weak_cong)

lemma ex_search_moveCost: "moveCost (nodes (ex_search c0 c2 ty) 0) = c0"
  by (simp add: ex_defs Initialize_def Let_def cong: let_weak_cong)

lemma ex_search_gCost: "gCost (nodes (ex_search c0 c2 ty) n) = Fin 0"
  by (simp add: ex_defs Initialize_def Let_def cong: let_weak_cong)

lemma ex_search_hCost: "hCost (nodes (ex_search c0 c2 ty) n) = Fin 0"
  by (simp add: ex_defs Initialize_def Let_def cong: let_weak_cong)

lemma ex_search_fCost: "fCost (nodes (ex_search c0 c2 ty) n) = Fin 0"
  by (simp add: ex_defs Initialize_def Let_def cong: let_weak_cong)

lemmas ex_search_fields = ex_search_nodes ex_search_type ex_search_moveCost ex_search_gCost
  ex_search_hCost ex_search_fCost

lemma fmul_one: "fmul a (Fin 1) = a"
  by (cases a) (simp_all add: inf_signed_def)


lemma ex_reopen_fields:
  "moveCost (nodes ex_reopen 0) = Fin 1" "moveCost (nodes ex_reopen 1) = Fin 1"
  "mCost (nodes ex_reopen 0) = Fin 1" "gCost (nodes ex_reopen 0) = Fin 0"
  "gCost (nodes ex_reopen 1) = Fin 500" "nodeState (nodes ex_reopen 1) = 3"
  "searchState ex_reopen = 2" "hCostMult ex_reopen = Fin 1" "tgtNode ex_reopen = 2"
  "curPoint ex_reopen = ex_pt 0" "tgtPoint ex_reopen = ex_pt 210" "etp ex_reopen = ex_etp"
  by (simp_all add: ex_reopen_def ex_defs model_defs Execute_pre_def Let_def cong: let_weak_cong)





lemma remdups_adj_step:
  "tl (remdups_adj (p # q # tps)) =
     (if q \<noteq> p then q # tl (remdups_adj (q # tps)) else tl (remdups_adj (q # tps)))"
  by simp

lemma rev_tl_remdups_adj:
  "rev (tl (remdups_adj (x # xs))) @ [x] = rev (remdups_adj (x # xs))"
  by (metis rev.simps(2) remdups_adj_Cons_alt)

lemma TracePath_round_Inr:
  assumes "TracePath_round cfg tmpNode prv prvPoint pts s = Inr (pts', s')"
  shows "pts' = (if etp s tmpNode (Some prv) prvPoint \<noteq> prvPoint
                 then etp s tmpNode (Some prv) prvPoint # pts else pts)"
    and "s' = (if \<not> QTPFS_SMOOTH_PATHS cfg then SetPrevNode tmpNode None s else s)"
  using assms unfolding TracePath_round_def Let_def by (auto split: if_splits)

lemma SetPrevNode_frame:
  "srcNode (SetPrevNode n v s) = srcNode s" "tgtNode (SetPrevNode n v s) = tgtNode s"
  "srcPoint (SetPrevNode n v s) = srcPoint s" "tgtPoint (SetPrevNode n v s) = tgtPoint s"
  "etp (SetPrevNode n v s) = etp s"
  by (simp_all add: SetPrevNode_def)

lemma TracePath_loop_walk_aux:
  assumes "TracePath_loop cfg tmpNode prvNode prvPoint pts s = Some y"
  shows "\<forall>pts' s'. y = Inr (pts', s') \<longrightarrow>
        (\<exists>tps. TracePath_walk cfg tmpNode prvNode prvPoint s = Some tps \<and>
               pts' = rev (tl (remdups_adj (prvPoint # tps))) @ pts \<and>
               srcPoint s' = srcPoint s \<and> tgtPoint s' = tgtPoint s)"
proof (rule TracePath_loop.raw_induct
    [where P = "\<lambda>cfg tmpNode prvNode prvPoint pts s y.
      \<forall>pts' s'. y = Inr (pts', s') \<longrightarrow>
        (\<exists>tps. TracePath_walk cfg tmpNode prvNode prvPoint s = Some tps \<and>
               pts' = rev (tl (remdups_adj (prvPoint # tps))) @ pts \<and>
               srcPoint s' = srcPoint s \<and> tgtPoint s' = tgtPoint s)", OF _ assms])
  fix f cfg tmpNode prvNode prvPoint pts s y
  assume IH: "\<And>cfg tmpNode prvNode prvPoint pts s y.
      f cfg tmpNode prvNode prvPoint pts s = Some y \<Longrightarrow>
      \<forall>pts' s'. y = Inr (pts', s') \<longrightarrow>
        (\<exists>tps. TracePath_walk cfg tmpNode prvNode prvPoint s = Some tps \<and>
               pts' = rev (tl (remdups_adj (prvPoint # tps))) @ pts \<and>
               srcPoint s' = srcPoint s \<and> tgtPoint s' = tgtPoint s)"
    and eq: "(case prvNode of
        None \<Rightarrow> Some (Inr (pts, s))
      | Some prv \<Rightarrow>
          if tmpNode = srcNode s then Some (Inr (pts, s))
          else
            (case TracePath_round cfg tmpNode prv prvPoint pts s of
               Inl e \<Rightarrow> Some (Inl e)
             | Inr (pts', s') \<Rightarrow>
                 f cfg prv (GetPrevNode s' prv) (etp s tmpNode (Some prv) prvPoint) pts' s')) = Some y"
  show "\<forall>pts' s'. y = Inr (pts', s') \<longrightarrow>
        (\<exists>tps. TracePath_walk cfg tmpNode prvNode prvPoint s = Some tps \<and>
               pts' = rev (tl (remdups_adj (prvPoint # tps))) @ pts \<and>
               srcPoint s' = srcPoint s \<and> tgtPoint s' = tgtPoint s)"
  proof (intro allI impI)
    fix pts' s' assume y: "y = Inr (pts', s')"
    show "\<exists>tps. TracePath_walk cfg tmpNode prvNode prvPoint s = Some tps \<and>
             pts' = rev (tl (remdups_adj (prvPoint # tps))) @ pts \<and>
             srcPoint s' = srcPoint s \<and> tgtPoint s' = tgtPoint s"
    proof (cases prvNode)
      case None
      with eq y show ?thesis by (subst TracePath_walk.simps) simp
    next
      case (Some prv)
      show ?thesis
      proof (cases "tmpNode = srcNode s")
        case True
        with eq y Some show ?thesis by (subst TracePath_walk.simps) simp
      next
        case False
        let ?tp = "etp s tmpNode (Some prv) prvPoint"
        let ?s1 = "if \<not> QTPFS_SMOOTH_PATHS cfg then SetPrevNode tmpNode None s else s"
        from eq y Some False obtain pts1 s1
          where r: "TracePath_round cfg tmpNode prv prvPoint pts s = Inr (pts1, s1)"
            and c: "f cfg prv (GetPrevNode s1 prv) ?tp pts1 s1 = Some (Inr (pts', s'))"
          by (auto split: sum.splits)
        from TracePath_round_Inr [OF r]
        have p1: "pts1 = (if ?tp \<noteq> prvPoint then ?tp # pts else pts)" and s1: "s1 = ?s1"
          by simp_all
        from IH [OF c] obtain tps
          where w: "TracePath_walk cfg prv (GetPrevNode s1 prv) ?tp s1 = Some tps"
            and e: "pts' = rev (tl (remdups_adj (?tp # tps))) @ pts1"
            and f: "srcPoint s' = srcPoint s1" "tgtPoint s' = tgtPoint s1"
          by blast
        have "TracePath_walk cfg tmpNode prvNode prvPoint s = Some (?tp # tps)"
          using w Some False s1 by (subst TracePath_walk.simps) simp
        moreover have "pts' = rev (tl (remdups_adj (prvPoint # ?tp # tps))) @ pts"
          unfolding e p1 remdups_adj_step by (simp add: rev_tl_remdups_adj)
        moreover have "srcPoint s' = srcPoint s" "tgtPoint s' = tgtPoint s"
          using f s1 by (simp_all add: SetPrevNode_frame)
        ultimately show ?thesis by blast
      qed
    qed
  qed
qed

lemma TracePath_loop_walk:
  assumes "TracePath_loop cfg tmpNode prvNode prvPoint pts s = Some (Inr (pts', s'))"
  shows "\<exists>tps. TracePath_walk cfg tmpNode prvNode prvPoint s = Some tps \<and>
               pts' = rev (tl (remdups_adj (prvPoint # tps))) @ pts \<and>
               srcPoint s' = srcPoint s \<and> tgtPoint s' = tgtPoint s"
  using TracePath_loop_walk_aux [OF assms] by blast

lemma fill_take:
  assumes "i < length xs"
  shows "take (Suc i) (xs[i := p]) = take i xs @ [p]"
  using assms by (simp add: take_Suc_conv_app_nth)

lemma SetPoint_points: "points (SetPoint i v p) = (points p)[i := v]"
  by (simp add: SetPoint_def)

lemma TracePath_fill_points:
  assumes "length ps + 2 \<le> length (points path)"
  shows "points (TracePath_fill ps path) =
           take (length (points path) - length ps - 1) (points path) @ ps @
           drop (length (points path) - 1) (points path)"
  using assms
proof (induction ps arbitrary: path)
  case Nil
  then show ?case by simp
next
  case (Cons p ps)
  define xs where "xs = points path"
  define i where "i = length xs - length ps - 2"
  from Cons.prems have n: "length ps + 3 \<le> length xs" by (simp add: xs_def)
  then have i: "i < length xs" "i < length xs - 1" "Suc i = length xs - length ps - 1"
    "length xs - length (p # ps) - 1 = i"
    by (simp_all add: i_def)
  have idx: "NumPoints path - length (p # ps) - 1 = i"
    using i(4) by (simp add: NumPoints_def xs_def)
  have "points (TracePath_fill (p # ps) path) = points (TracePath_fill ps (SetPoint i p path))"
    by (simp only: TracePath_fill.simps idx)
  also have "\<dots> = take (length (xs[i := p]) - length ps - 1) (xs[i := p]) @ ps @
                   drop (length (xs[i := p]) - 1) (xs[i := p])"
    using n by (subst Cons.IH) (simp_all add: SetPoint_points xs_def)
  also have "\<dots> = take (Suc i) (xs[i := p]) @ ps @ drop (length xs - 1) (xs[i := p])"
    by (simp add: i(3))
  also have "\<dots> = (take i xs @ [p]) @ ps @ drop (length xs - 1) xs"
    using i(1,2) by (simp only: fill_take drop_update_cancel)
  finally show ?case by (simp add: xs_def [symmetric] i_def)
qed

lemma TracePath_finish_points:
  assumes len: "length (points path) = length pts + 2"
  shows "points (SetTargetPoint t (SetSourcePoint a (TracePath_fill pts path))) = a # pts @ [t]"
proof -
  let ?xs = "points path"
  have "length (take 1 ?xs) = 1" "length (drop (length ?xs - 1) ?xs) = 1"
    using len by simp_all
  then obtain u v where u: "take 1 ?xs = [u]" and v: "drop (length ?xs - 1) ?xs = [v]"
    by (metis One_nat_def length_0_conv length_Suc_conv)
  have "points (TracePath_fill pts path) = take 1 ?xs @ pts @ drop (length ?xs - 1) ?xs"
    using len by (subst TracePath_fill_points) simp_all
  then have f: "points (TracePath_fill pts path) = u # pts @ [v]"
    unfolding u v by simp
  show ?thesis
    by (simp add: SetTargetPoint_def SetSourcePoint_def SetPoint_points NumPoints_def f)
qed

lemma TracePath_points:
  assumes run: "TracePath cfg path s = Some (Inr (path', s'))" and two: "NumPoints path = 2"
  shows "\<exists>tps. TracePath_transitions cfg s = Some tps \<and>
               points path' = srcPoint s # rev (tl (remdups_adj (tgtPoint s # tps))) @ [tgtPoint s]"
proof -
  let ?loop = "if srcNode s \<noteq> tgtNode s
            then TracePath_loop cfg (tgtNode s) (GetPrevNode s (tgtNode s)) (tgtPoint s) [] s
            else Some (Inr ([], s))"
  from run obtain pts s1 where l: "?loop = Some (Inr (pts, s1))"
    unfolding TracePath_def by (auto split: option.splits sum.splits if_splits)
  have "\<exists>tps. TracePath_transitions cfg s = Some tps \<and>
          pts = rev (tl (remdups_adj (tgtPoint s # tps))) \<and>
          srcPoint s1 = srcPoint s \<and> tgtPoint s1 = tgtPoint s"
  proof (cases "srcNode s \<noteq> tgtNode s")
    case True
    with l have "TracePath_loop cfg (tgtNode s) (GetPrevNode s (tgtNode s)) (tgtPoint s) [] s
        = Some (Inr (pts, s1))" by simp
    from TracePath_loop_walk [OF this] True show ?thesis
      by (simp add: TracePath_transitions_def)
  next
    case False
    with l show ?thesis by (simp add: TracePath_transitions_def)
  qed
  then obtain tps where tps: "TracePath_transitions cfg s = Some tps"
    and pts: "pts = rev (tl (remdups_adj (tgtPoint s # tps)))"
    and fr: "srcPoint s1 = srcPoint s" "tgtPoint s1 = tgtPoint s"
    by blast
  let ?p0 = "if pts \<noteq> [] then AllocPoints (length pts + 2) path else path"
  from run l have p': "path' = SetTargetPoint (tgtPoint s1) (SetSourcePoint (srcPoint s1)
        (TracePath_fill pts ?p0))"
    unfolding TracePath_def Let_def by (simp split: if_splits)
  have "length (points ?p0) = length pts + 2"
    using two by (simp add: AllocPoints_def NumPoints_def)
  from TracePath_finish_points [OF this] p' fr
  have "points path' = srcPoint s # pts @ [tgtPoint s]" by simp
  with tps pts show ?thesis by simp
qed

lemmas trace_eval = TracePath_def TracePath_loop.simps TracePath_round_def accessor_defs ex_defs Let_def
  AllocPoints_def SetSourcePoint_def SetTargetPoint_def SetPoint_def NumPoints_def ex_path_def
  ZeroVector_def

lemma ex_traced_run:
  "TracePath ex_cfg (ex_path 3 [ZeroVector, ZeroVector]) (snd ex_full) = Some (Inr ex_traced)"
proof -
  have "case TracePath ex_cfg (ex_path 3 [ZeroVector, ZeroVector]) (snd ex_full) of
          Some (Inr r) \<Rightarrow> True | _ \<Rightarrow> False"
    apply (simp add: ex_full_def ex_eval cong: let_weak_cong)
    apply (simp add: trace_eval cong: let_weak_cong)
    done
  then show ?thesis by (auto simp add: ex_traced_def split: option.splits sum.splits)
qed

lemma ex_traced_points: "points (fst ex_traced) = [ex_pt 0, ex_pt 160, ex_pt 200, ex_pt 210]"
  unfolding ex_traced_def
  apply (simp add: ex_full_def ex_eval cong: let_weak_cong)
  apply (simp add: trace_eval cong: let_weak_cong)
  done

lemma ex_back_run:
  "Execute ex_cfg 2 0 (Initialize (ex_layer (Fin 1) (Fin 1)) Map.empty (ex_pt 200) (ex_pt 0)
        \<lparr>x1 = 0, z1 = 0, x2 = 100, z2 = 100\<rparr> ex_fresh) = Some ex_back"
proof -
  have "Execute ex_cfg 2 0 (Initialize (ex_layer (Fin 1) (Fin 1)) Map.empty (ex_pt 200) (ex_pt 0)
        \<lparr>x1 = 0, z1 = 0, x2 = 100, z2 = 100\<rparr> ex_fresh) \<noteq> None"
    by (simp add: ex_eval cong: let_weak_cong)
  then show ?thesis by (auto simp add: ex_back_def)
qed

lemma ex_traced_back_run:
  "TracePath ex_cfg (ex_path 3 [ZeroVector, ZeroVector]) (snd ex_back) = Some (Inr ex_traced_back)"
proof -
  have "case TracePath ex_cfg (ex_path 3 [ZeroVector, ZeroVector]) (snd ex_back) of
          Some (Inr r) \<Rightarrow> True | _ \<Rightarrow> False"
    apply (simp add: ex_back_def ex_eval cong: let_weak_cong)
    apply (simp add: trace_eval cong: let_weak_cong)
    done
  then show ?thesis by (auto simp add: ex_traced_back_def split: option.splits sum.splits)
qed


lemma fge_Fin_iff: "(fge x (Fin L) \<and> x \<noteq> PInf) = (\<exists>f. x = Fin f \<and> L \<le> f)"
  by (cases x) auto
















subsection \<open>GetHash\<close>

text \<open>
  C1. GetHash(N, k) is meant to be the 64-bit value
  srcNode.nodeNumber + tgtNode.nodeNumber * N + k * N * N, free of collisions
  for node numbers below N. The code computes the sum in 32 bits: with
  N = 65536 the term k * N * N wraps to 0 for every k, so the searches of
  movement classes 0 and 1 between the same two nodes get the same hash,
  whatever the node numbers are.
\<close>

theorem GetHash_wraps_at_32_bits:
  "GetHash s 65536 1 = GetHash s 65536 0"
proof -
  have "(1 :: uint) * 65536 * 65536 = 0" and "(0 :: uint) * 65536 * 65536 = 0"
    by simp_all
  then show ?thesis
    by (simp only: GetHash_def)
qed


subsection \<open>Execute\<close>

text \<open>
  C2. When Execute ends with haveFullPath false and havePartPath true, in a
  build with QTPFS_SUPPORT_PARTIAL_SEARCHES, tgtNode is minNode, tgtPoint.x
  is minNode.xmid * SQUARE_SIZE, tgtPoint.z is minNode.zmid * SQUARE_SIZE
  (the products taken in unsigned arithmetic and converted to float), and
  the return value is true.
\<close>

theorem Execute_partial_result_snaps_target:
  assumes run: "Execute cfg searchStateOffset searchMagicNumber s = Some (r, s')"
    and partial: "QTPFS_SUPPORT_PARTIAL_SEARCHES cfg"
    and flags: "\<not> haveFullPath s'" "havePartPath s'"
  shows "tgtNode s' = minNode s' \<and>
         fx (tgtPoint s') = real (unat (xmid (nodes s' (minNode s')) * SQUARE_SIZE)) \<and>
         fz (tgtPoint s') = real (unat (zmid (nodes s' (minNode s')) * SQUARE_SIZE)) \<and>
         r = True"
proof (cases "srcNode s = tgtNode s")
  case True
  with run have "haveFullPath s'" by (auto simp add: Execute_eq Execute_pre_def)
  with flags show ?thesis by simp
next
  case False
  let ?b = "moveCost (nodes s (srcNode s)) = PInf"
  from run False obtain t where t: "Execute_end cfg ?b t = (r, s')"
    by (rule Execute_run)
  show ?thesis
  proof (cases "\<not> haveFullPath t \<and> havePartPath t")
    case True
    with t partial show ?thesis by (auto simp add: Execute_end_eq)
  next
    case False
    with t have "haveFullPath s' = haveFullPath t" "havePartPath s' = havePartPath t"
      by (auto simp add: Execute_end_eq)
    with False flags show ?thesis by simp
  qed
qed

text \<open>
  Witness for C2: on the example layer with source and target node blocked,
  the search ends with a partial path; the target is snapped to node 1, whose
  midpoint is (22, 5).
\<close>

theorem Execute_partial_result_snaps_target_witness:
  "Execute ex_cfg 2 0 (ex_search PInf PInf PATH_SEARCH_ASTAR) = Some ex_part \<and>
   QTPFS_SUPPORT_PARTIAL_SEARCHES ex_cfg \<and> \<not> haveFullPath (snd ex_part) \<and>
   havePartPath (snd ex_part) \<and> tgtNode (snd ex_part) = minNode (snd ex_part) \<and>
   fx (tgtPoint (snd ex_part)) = 176 \<and> fz (tgtPoint (snd ex_part)) = 40 \<and> fst ex_part = True"
proof -
  have run: "Execute ex_cfg 2 0 (ex_search PInf PInf PATH_SEARCH_ASTAR) = Some (fst ex_part, snd ex_part)"
    by (simp add: ex_part_run)
  have p: "QTPFS_SUPPORT_PARTIAL_SEARCHES ex_cfg" by (simp add: ex_cfg_def)
  from Execute_partial_result_snaps_target [OF run p ex_part_flags] ex_part_run p ex_part_flags
  show ?thesis by (simp add: ex_part_xmid SQUARE_SIZE_def)
qed



text \<open>
  C8. With m the heuristic multiplier of the search (1.0 for A*, 0.0 for
  Dijkstra), Execute stores m in hCostMult, every UpdateNode under that
  multiplier leaves F = G + H * m on the node it stamps, and after Execute
  every node either has the F, G and H it had before or satisfies
  F = G + H * m.
\<close>

theorem stamped_F_is_G_plus_H_hCostMult:
  assumes run: "Execute cfg searchStateOffset searchMagicNumber s = Some (r, s')"
    and m: "m = (case searchType s of PATH_SEARCH_ASTAR \<Rightarrow> Fin 1 | PATH_SEARCH_DIJKSTRA \<Rightarrow> Fin 0)"
  shows "(srcNode s \<noteq> tgtNode s \<longrightarrow> hCostMult s' = m) \<and>
         (\<forall>n. fCost (nodes s' n) = fCost (nodes s n) \<and> gCost (nodes s' n) = gCost (nodes s n) \<and>
               hCost (nodes s' n) = hCost (nodes s n) \<or>
               fCost (nodes s' n) = fadd (gCost (nodes s' n)) (fmul (hCost (nodes s' n)) m)) \<and>
         (\<forall>u n c g h k. hCostMult u = m \<longrightarrow>
               fCost (nodes (UpdateNode cfg n c g h k u) n) =
                 fadd (gCost (nodes (UpdateNode cfg n c g h k u) n))
                      (fmul (hCost (nodes (UpdateNode cfg n c g h k u) n)) m))"
proof -
  from m have m01: "m = Fin 0 \<or> m = Fin 1" by (cases "searchType s") simp_all
  have u: "\<forall>u n c g h k. hCostMult u = m \<longrightarrow>
               fCost (nodes (UpdateNode cfg n c g h k u) n) =
                 fadd (gCost (nodes (UpdateNode cfg n c g h k u) n))
                      (fmul (hCost (nodes (UpdateNode cfg n c g h k u) n)) m)"
    using fmul_idem [OF m01] by (simp add: UpdateNode_eq)
  have "(srcNode s \<noteq> tgtNode s \<longrightarrow> hCostMult s' = m) \<and>
         (\<forall>n. fCost (nodes s' n) = fCost (nodes s n) \<and> gCost (nodes s' n) = gCost (nodes s n) \<and>
               hCost (nodes s' n) = hCost (nodes s n) \<or>
               fCost (nodes s' n) = fadd (gCost (nodes s' n)) (fmul (hCost (nodes s' n)) m))"
  proof (cases "srcNode s = tgtNode s")
    case True
    with run show ?thesis by (auto simp add: Execute_eq Execute_pre_def)
  next
    case False
    let ?b = "moveCost (nodes s (srcNode s)) = PInf"
    let ?s0 = "Execute_begin cfg ?b (Execute_pre searchStateOffset searchMagicNumber s)"
    from run False obtain t where loop: "Execute_loop cfg ?s0 = Some t"
      and fin: "Execute_end cfg ?b t = (r, s')"
      by (rule Execute_run)
    have "F_inv (nodes s) m ?s0"
      using fmul_idem [OF m01] by (simp add: F_inv_def Execute_begin_eq Execute_pre_def m)
    with loop have f: "F_inv (nodes s) m t" using m01 by (rule Execute_loop_F)
    have e: "hCostMult s' = hCostMult t"
      "nodes s' = (if ?b then (nodes t)(srcNode t := (nodes t (srcNode t))\<lparr>moveCost := PInf\<rparr>)
                   else nodes t)"
      using fin by (auto simp add: Execute_end_eq split: if_splits)
    from f e show ?thesis by (simp add: F_inv_def)
  qed
  with u show ?thesis by simp
qed

text \<open>
  Witness for C8: the A* run on the example layer stamps node 1 with G = 160,
  H = 100 and F = 260.
\<close>

theorem stamped_F_is_G_plus_H_hCostMult_witness:
  "Execute ex_cfg 2 0 (ex_search (Fin 1) (Fin 1) PATH_SEARCH_ASTAR) = Some ex_full \<and>
   hCostMult (snd ex_full) = Fin 1 \<and>
   fCost (nodes (snd ex_full) 1) = Fin 260 \<and> gCost (nodes (snd ex_full) 1) = Fin 160 \<and>
   hCost (nodes (snd ex_full) 1) = Fin 100 \<and>
   fCost (nodes (snd ex_full) 1) = fadd (gCost (nodes (snd ex_full) 1)) (fmul (hCost (nodes (snd ex_full) 1)) (Fin 1))"
proof -
  have run: "Execute ex_cfg 2 0 (ex_search (Fin 1) (Fin 1) PATH_SEARCH_ASTAR) = Some (fst ex_full, snd ex_full)"
    by (simp add: ex_full_run)
  have v: "fCost (nodes (snd ex_full) 1) = Fin 260" "gCost (nodes (snd ex_full) 1) = Fin 160"
    "hCost (nodes (snd ex_full) 1) = Fin 100"
    by (simp_all add: ex_full_def ex_eval cong: let_weak_cong)
  from stamped_F_is_G_plus_H_hCostMult [OF run, of "Fin 1"] ex_full_run v
  show ?thesis by (simp add: ex_search_fields)
qed

text \<open>
  C10. A Dijkstra search between different nodes, started with
  minNode = srcNode (as Initialize leaves it), stores H = 0 on every node it
  stamps (in the build with QTPFS_WEIGHTED_HEURISTIC_COST the product with
  0.0 can also be NaN, when the weight is not finite), never moves minNode,
  ends with havePartPath false and tgtNode unchanged, and returns true only
  with haveFullPath, that is when the last node popped is tgtNode.
\<close>

theorem Dijkstra_never_partial:
  assumes run: "Execute cfg searchStateOffset searchMagicNumber s = Some (r, s')"
    and dij: "searchType s = PATH_SEARCH_DIJKSTRA"
    and ne: "srcNode s \<noteq> tgtNode s"
    and init: "minNode s = srcNode s"
  shows "hCostMult s' = Fin 0 \<and>
         (\<forall>n. hCost (nodes s' n) = hCost (nodes s n) \<or> hCost (nodes s' n) = Fin 0 \<or>
              (QTPFS_WEIGHTED_HEURISTIC_COST cfg \<and> hCost (nodes s' n) = NaN)) \<and>
         minNode s' = srcNode s \<and> \<not> havePartPath s' \<and> tgtNode s' = tgtNode s \<and>
         r = haveFullPath s' \<and> (r \<longrightarrow> curNode s' = Some (tgtNode s))"
proof -
  let ?b = "moveCost (nodes s (srcNode s)) = PInf"
  let ?s0 = "Execute_begin cfg ?b (Execute_pre searchStateOffset searchMagicNumber s)"
  from run ne obtain t where loop: "Execute_loop cfg ?s0 = Some t"
    and fin: "Execute_end cfg ?b t = (r, s')"
    by (rule Execute_run)
  have "D_inv cfg (nodes s) (srcNode s) ?s0"
    using ne by (simp add: D_inv_def D_core_def zeroish_def Execute_begin_eq Execute_pre_def dij init)
  with loop have d: "D_inv cfg (nodes s) (srcNode s) t" by (rule Execute_loop_D)
  from Execute_loop_static [OF loop] have tg: "tgtNode t = tgtNode s"
    by (simp add: Execute_begin_eq Execute_pre_def)
  from d have np: "\<not> havePartPath t" by (simp add: D_inv_def)
  with fin have e: "r = haveFullPath t" "hCostMult s' = hCostMult t" "minNode s' = minNode t"
    "havePartPath s' = havePartPath t" "haveFullPath s' = haveFullPath t" "tgtNode s' = tgtNode t"
    "curNode s' = curNode t" "\<forall>n. hCost (nodes s' n) = hCost (nodes t n)"
    by (auto simp add: Execute_end_eq split: if_splits)
  from d e tg show ?thesis
    by (simp add: D_inv_def D_core_def zeroish_def)
qed

text \<open>
  Witness for C10: the Dijkstra run on the example layer finds the full path
  to node 2, with H = 0 on node 1 and minNode still the source node 0.
\<close>

theorem Dijkstra_never_partial_witness:
  "Execute ex_cfg 2 0 (ex_search (Fin 1) (Fin 1) PATH_SEARCH_DIJKSTRA) = Some ex_dijk \<and>
   searchType (ex_search (Fin 1) (Fin 1) PATH_SEARCH_DIJKSTRA) = PATH_SEARCH_DIJKSTRA \<and>
   srcNode (ex_search (Fin 1) (Fin 1) PATH_SEARCH_DIJKSTRA) \<noteq> tgtNode (ex_search (Fin 1) (Fin 1) PATH_SEARCH_DIJKSTRA) \<and>
   minNode (ex_search (Fin 1) (Fin 1) PATH_SEARCH_DIJKSTRA) = srcNode (ex_search (Fin 1) (Fin 1) PATH_SEARCH_DIJKSTRA) \<and>
   hCostMult (snd ex_dijk) = Fin 0 \<and> hCost (nodes (snd ex_dijk) 1) = Fin 0 \<and>
   minNode (snd ex_dijk) = 0 \<and> \<not> havePartPath (snd ex_dijk) \<and> tgtNode (snd ex_dijk) = 2 \<and>
   fst ex_dijk = True \<and> haveFullPath (snd ex_dijk) \<and> curNode (snd ex_dijk) = Some 2"
proof -
  have run: "Execute ex_cfg 2 0 (ex_search (Fin 1) (Fin 1) PATH_SEARCH_DIJKSTRA) = Some (fst ex_dijk, snd ex_dijk)"
    by (simp add: ex_dijk_run)
  have r: "fst ex_dijk = True" "\<not> QTPFS_WEIGHTED_HEURISTIC_COST ex_cfg"
    by (simp_all add: ex_dijk_def ex_eval cong: let_weak_cong)
  have h: "hCost (nodes (snd ex_dijk) 1) = Fin 0"
    by (simp add: ex_dijk_def ex_eval cong: let_weak_cong)
  from Dijkstra_never_partial [OF run] ex_dijk_run r h
  show ?thesis by (simp add: ex_search_fields)
qed


subsection \<open>Iterate\<close>




text \<open>
  C5, as stated, fails for the stored H: UpdateNode stores H' * hCostMult,
  not H'. In the Dijkstra search on the example layer node 1 is expanded
  from node 0 with H' = 2 * 50 = 100, and its stored H is 0.
\<close>

theorem Dijkstra_stored_H_is_not_weighted_distance:
  "Execute ex_cfg 2 0 (ex_search (Fin 1) (Fin 1) PATH_SEARCH_DIJKSTRA) = Some ex_dijk \<and>
   prevNode (nodes (snd ex_dijk) 1) = Some 0 \<and>
   hCost (nodes (snd ex_dijk) 1) = Fin 0 \<and>
   fmul (fmul (Fin 2) (Fin (distance (ex_etp 0 (Some 1) (ex_pt 0)) (ex_pt 210))))
        (float_of_bool (1 \<noteq> tgtNode (snd ex_dijk))) = Fin 100"
proof -
  have "prevNode (nodes (snd ex_dijk) 1) = Some 0" "hCost (nodes (snd ex_dijk) 1) = Fin 0"
    "tgtNode (snd ex_dijk) = 2"
    by (simp_all add: ex_dijk_def ex_eval cong: let_weak_cong)
  moreover have "fmul (fmul (Fin 2) (Fin (distance (ex_etp 0 (Some 1) (ex_pt 0)) (ex_pt 210))))
        (float_of_bool (1 \<noteq> (2::nat))) = Fin 100"
    by (simp add: ex_defs distance_def SqDistance_def float_of_bool_def)
  ultimately show ?thesis by (simp add: ex_dijk_run)
qed

text \<open>
  C5, amended: for a neighbour n of curNode at which Iterate calls UpdateNode
  (its move cost is not +inf, and it is either not current or the new G is
  not >= its stored G) the stored costs are
  M = curNode.M + curNode.moveCost + n.moveCost * [n == tgtNode],
  G = curNode.G + curNode.moveCost * dist(curPoint, nxtPoint)
        + n.moveCost * dist(nxtPoint, tgtPoint) * [n == tgtNode],
  H = (hWeight * dist(nxtPoint, tgtPoint) * [n != tgtNode]) * hCostMult,
  that is H' itself for A* and 0 for Dijkstra (with hWeight = 2), and
  F = G + H, with Euclidean distances and nxtPoint the edge-transition point
  towards n; for every other neighbour no node is changed.
\<close>

theorem Iterate_neighbor_stored_costs:
  "let s' = Iterate_neighbor cfg hWeight cur i ngb s;
       isTarget = (ngb = tgtNode s);
       gDist = Fin (distance (curPoint s) (nxtPoint s'));
       hDist = Fin (distance (nxtPoint s') (tgtPoint s));
       M' = fadd (fadd (mCost (nodes s cur)) (moveCost (nodes s cur)))
                 (fmul (moveCost (nodes s ngb)) (float_of_bool isTarget));
       G' = fadd (fadd (gCost (nodes s cur)) (fmul (moveCost (nodes s cur)) gDist))
                 (fmul (fmul (moveCost (nodes s ngb)) hDist) (float_of_bool isTarget));
       H' = fmul (fmul hWeight hDist) (float_of_bool (\<not> isTarget))
   in nxtPoint s' = (if QTPFS_CACHED_EDGE_TRANSITION_POINTS cfg then cetp s cur i
                     else etp s cur (Some ngb) (curPoint s)) \<and>
      (if moveCost (nodes s ngb) \<noteq> PInf \<and>
          (\<not> searchState s \<le> nodeState (nodes s ngb) \<or> \<not> fge G' (gCost (nodes s ngb)))
       then mCost (nodes s' ngb) = M' \<and> gCost (nodes s' ngb) = G' \<and>
            hCost (nodes s' ngb) = fmul H' (hCostMult s) \<and>
            fCost (nodes s' ngb) = fadd G' (fmul H' (hCostMult s)) \<and>
            (hCostMult s = Fin 1 \<longrightarrow> hCost (nodes s' ngb) = H') \<and>
            (hCostMult s = Fin 0 \<and> hWeight = Fin 2 \<longrightarrow> hCost (nodes s' ngb) = Fin 0)
       else nodes s' = nodes s)"
proof -
  let ?e = "ngb_enter cfg cur i ngb s"
  have p: "nxtPoint (Iterate_neighbor cfg hWeight cur i ngb s) = nxtPoint ?e"
    by (simp add: Iterate_neighbor_eq UpdateNode_eq)
  have q: "nxtPoint ?e = (if QTPFS_CACHED_EDGE_TRANSITION_POINTS cfg then cetp s cur i
                     else etp s cur (Some ngb) (curPoint s))"
    by (simp add: ngb_enter_def)
  have z: "fmul (fmul (Fin d) (float_of_bool b)) (Fin 0) = Fin 0" for d b
    by (simp add: float_of_bool_def)
  show ?thesis
    unfolding Let_def p
    by (simp add: Iterate_neighbor_eq UpdateNode_eq ngb_skip_def ngb_gCost_def ngb_mCost_def
        ngb_hCost_def ngb_enter_simps fmul_one z q [symmetric])
qed

text \<open>
  Witness for the amended C5: the update of node 1 from node 0 in an A*
  search on the example layer stores M = 2, G = 160, H = 100 and F = 260.
\<close>

theorem Iterate_neighbor_stored_costs_witness:
  "moveCost (nodes ex_reopen 1) \<noteq> PInf \<and> \<not> fge (Fin 160) (gCost (nodes ex_reopen 1)) \<and>
   hCostMult ex_reopen = Fin 1 \<and>
   mCost (nodes (Iterate_neighbor ex_cfg (Fin 2) 0 0 1 ex_reopen) 1) = Fin 2 \<and>
   gCost (nodes (Iterate_neighbor ex_cfg (Fin 2) 0 0 1 ex_reopen) 1) = Fin 160 \<and>
   hCost (nodes (Iterate_neighbor ex_cfg (Fin 2) 0 0 1 ex_reopen) 1) = Fin 100 \<and>
   fCost (nodes (Iterate_neighbor ex_cfg (Fin 2) 0 0 1 ex_reopen) 1) = Fin 260"
proof -
  have c: "\<not> QTPFS_CACHED_EDGE_TRANSITION_POINTS ex_cfg" by (simp add: ex_cfg_def)
  have d: "distance (ex_pt 0) (ex_etp 0 (Some 1) (ex_pt 0)) = 160"
    "distance (ex_etp 0 (Some 1) (ex_pt 0)) (ex_pt 210) = 50"
    by (simp_all add: ex_etp_def ex_pt_def distance_def SqDistance_def)
  from Iterate_neighbor_stored_costs [of ex_cfg "Fin 2" 0 0 1 ex_reopen]
  show ?thesis
    by (simp add: Let_def ex_reopen_fields c d float_of_bool_def del: One_nat_def)
qed

subsection \<open>SharedFinalize\<close>




subsection \<open>TracePath\<close>

text \<open>
  C7. TracePath is meant to emit the waypoints in source-to-target order,
  srcPoint first and tgtPoint last, with adjacent waypoints different except
  that the target point may coincide with the last transition point; the
  comment in the code says the same (waypoints should never have identical
  coordinates, the one exception being tgtPoint and the first transition
  point of the walk back). The code compares each transition point only with
  the one before it on the walk back from tgtNode, and never the last one of
  the walk with srcPoint. On the example layer a search from the point
  x = 200, which lies on the edge between node 2 and node 1, to x = 0 finds
  the full path 2, 1, 0, no assert fails, and TracePath emits the four
  waypoints 200, 200, 160, 0: the source point and the waypoint after it are
  equal.
\<close>

theorem TracePath_source_point_repeated:
  "Execute ex_cfg 2 0 (Initialize (ex_layer (Fin 1) (Fin 1)) Map.empty (ex_pt 200) (ex_pt 0)
        \<lparr>x1 = 0, z1 = 0, x2 = 100, z2 = 100\<rparr> ex_fresh) = Some ex_back \<and>
   fst ex_back = True \<and> haveFullPath (snd ex_back) \<and>
   srcNode (snd ex_back) = 2 \<and> tgtNode (snd ex_back) = 0 \<and>
   TracePath ex_cfg (ex_path 3 [ZeroVector, ZeroVector]) (snd ex_back) = Some (Inr ex_traced_back) \<and>
   points (fst ex_traced_back) = [ex_pt 200, ex_pt 200, ex_pt 160, ex_pt 0] \<and>
   points (fst ex_traced_back) ! 0 = points (fst ex_traced_back) ! 1"
proof -
  have a: "fst ex_back = True" "haveFullPath (snd ex_back)" "srcNode (snd ex_back) = 2"
    "tgtNode (snd ex_back) = 0"
    by (simp_all add: ex_back_def ex_eval cong: let_weak_cong)
  have b: "points (fst ex_traced_back) = [ex_pt 200, ex_pt 200, ex_pt 160, ex_pt 0]"
    unfolding ex_traced_back_def
    apply (simp add: ex_back_def ex_eval cong: let_weak_cong)
    apply (simp add: trace_eval cong: let_weak_cong)
    done
  from a b ex_back_run ex_traced_back_run show ?thesis by simp
qed

end
